theory Spec2Isabelle
  imports Complex_Main "HOL-Library.Word" "HOL-Library.Sublist"
begin

section \<open>OAuth credential provisioning: the server actions\<close>

text \<open>
  A shallow embedding of \<^verbatim>\<open>src/app/actions/anthropic-oauth.ts\<close> (the
  authorization-code flow with PKCE) and of \<^verbatim>\<open>startGeminiOAuthLogin\<close> in
  \<^verbatim>\<open>src/unnamed/part_000\<close> (the browser login flow).

  Conventions of the embedding.
  \<^item> A JavaScript string is a \<open>string\<close>; its characters are the bytes of its UTF-8 form.
  \<^item> An exception is a value: \<open>Inl m\<close> is a thrown \<^verbatim>\<open>Error\<close> with message \<open>m\<close>,
    \<open>Inr v\<close> a normal return.
  \<^item> Module state, the two database tables, the network and the console are fields of
    one state record which every action takes and returns.
  \<^item> What the platform supplies (\<^verbatim>\<open>JSON\<close>, \<^verbatim>\<open>URL\<close> parsing, SHA-256) is a
    parameter of the model, the record \<open>runtime\<close>; what the outside world answers during
    one call (the configuration loader, the entropy source, the clock, the two HTTP
    endpoints) is the record \<open>env\<close>.
\<close>

subsection \<open>Values and records of the source\<close>

type_synonym byte = "8 word"

text \<open>A value produced by \<^verbatim>\<open>JSON.parse\<close>. An object is the list of its own properties.\<close>

datatype json =
    JNull
  | JBool bool
  | JNum real
  | JStr string
  | JArr "json list"
  | JObj "(string \<times> json) list"

text \<open>\<^verbatim>\<open>interface PKCE\<close> (lines 18-21).\<close>

record PKCE =
  verifier :: string
  challenge :: string

text \<open>\<^verbatim>\<open>interface TokenResponse\<close> (lines 23-27).\<close>

record TokenResponse =
  access_token :: string
  refresh_token :: "string option"
  expires_in :: int

text \<open>\<^verbatim>\<open>interface ApiKeyResponse\<close> (lines 29-36); \<open>id\<close> is spelt \<open>key_id\<close> here.\<close>

record ApiKeyResponse =
  raw_key :: string
  key_id :: string
  name :: string
  created_at :: string
  partial_key_hint :: string
  status :: string

text \<open>
  The type the source declares for the parsed session value (line 112):
  \<^verbatim>\<open>{ verifier: string; state: string; timestamp: number }\<close>. The timestamp is a
  \<^verbatim>\<open>Date.now()\<close> reading, a whole number of milliseconds.
\<close>

record oauthData =
  verifier :: string
  state :: string
  timestamp :: int

text \<open>
  The provider configuration, \<^verbatim>\<open>getOAuthConfig().anthropic\<close>. The loader is not part
  of the sources; the fields are those the actions read.
\<close>

record config =
  clientId :: string
  authorizeUrl :: string
  tokenUrl :: string
  apiKeyUrl :: string
  redirectUri :: string
  scopes :: "string list"

text \<open>
  A parsed \<^verbatim>\<open>URL\<close> object: everything of the serialisation before the query
  (\<open>href_base\<close>), the list behind \<^verbatim>\<open>searchParams\<close>, and the fragment (\<open>None\<close> when the
  URL has none).
\<close>

record URL =
  href_base :: string
  searchParams :: "(string \<times> string) list"
  fragment :: "string option"

text \<open>One \<^verbatim>\<open>fetch\<close> call, as the source builds it.\<close>

record request =
  url :: string
  http_method :: string
  headers :: "(string \<times> string) list"
  body :: string

text \<open>
  What a \<^verbatim>\<open>fetch\<close> resolves to: the \<^verbatim>\<open>ok\<close> flag, the outcome of \<^verbatim>\<open>text()\<close> and the
  outcome of \<^verbatim>\<open>json()\<close> at the type the source asserts for it
  (\<^verbatim>\<open>as TokenResponse\<close>, \<^verbatim>\<open>as ApiKeyResponse\<close>).
\<close>

record 'a response =
  ok :: bool
  text_body :: "string + string"
  json_body :: "string + 'a"

text \<open>A row of the credential table, as the actions read and write it.\<close>

record connection_row =
  apikey :: string
  google_Oauth :: string

text \<open>
  The state the actions share: the module variable \<^verbatim>\<open>oauthConfig\<close> (line 8), the
  key-value table, the credential table keyed by provider, the requests sent so far and
  the lines written with \<^verbatim>\<open>console.error\<close> (label and message).
\<close>

record app =
  oauthConfig :: "config option"
  keyValue :: "string \<rightharpoonup> string"
  connection :: "string \<rightharpoonup> connection_row"
  requests :: "request list"
  console :: "(string \<times> string) list"

text \<open>
  The platform functions the actions call. \<open>JSON_parse\<close> is \<^verbatim>\<open>JSON.parse\<close> (\<open>None\<close>
  when it throws); \<open>JSON_parse_oauthData\<close> is \<^verbatim>\<open>JSON.parse\<close> read at the type declared
  in line 112; \<open>URL_parse\<close> is \<^verbatim>\<open>new URL(s)\<close> (\<open>None\<close> when it throws); \<open>sha256\<close> is
  the digest of the UTF-8 bytes of a string.
\<close>

record runtime =
  JSON_parse :: "string \<Rightarrow> json option"
  JSON_parse_oauthData :: "string \<Rightarrow> oauthData option"
  JSON_stringify :: "json \<Rightarrow> string"
  URL_parse :: "string \<Rightarrow> URL option"
  sha256 :: "string \<Rightarrow> byte list"

text \<open>
  The answers of the outside world during one call: what \<^verbatim>\<open>getOAuthConfig()\<close> yields,
  the bytes the entropy source still holds, the reading of \<^verbatim>\<open>Date.now()\<close>, and the
  behaviour of the token and key-issuance endpoints (\<open>Inl\<close>: \<^verbatim>\<open>fetch\<close> rejects).
\<close>

record env =
  getOAuthConfig :: "string + config"
  entropy :: "byte list"
  Date_now :: int
  fetch_token :: "request \<Rightarrow> string + TokenResponse response"
  fetch_apiKey :: "request \<Rightarrow> string + ApiKeyResponse response"

subsection \<open>Encodings\<close>

text \<open>
  Node's \<^verbatim>\<open>'base64url'\<close> encoding of a buffer: the alphabet of RFC 4648, section 5, three
  bytes to four characters, no padding at the end.
\<close>

definition b64url_alphabet :: string where
  "b64url_alphabet = ''ABCDEFGHIJKLMNOPQRSTUVWXYZabcdefghijklmnopqrstuvwxyz0123456789-_''"

definition b64url_char :: "nat \<Rightarrow> char" where
  "b64url_char n = b64url_alphabet ! (n mod 64)"

fun base64url :: "byte list \<Rightarrow> string" where
  "base64url [] = []"
| "base64url [a] =
     [b64url_char (unat a div 4), b64url_char (unat a mod 4 * 16)]"
| "base64url [a, b] =
     [b64url_char (unat a div 4), b64url_char (unat a mod 4 * 16 + unat b div 16),
      b64url_char (unat b mod 16 * 4)]"
| "base64url (a # b # c # rest) =
     [b64url_char (unat a div 4), b64url_char (unat a mod 4 * 16 + unat b div 16),
      b64url_char (unat b mod 16 * 4 + unat c div 64), b64url_char (unat c mod 64)]
     @ base64url rest"

text \<open>
  The serialiser behind \<^verbatim>\<open>URLSearchParams\<close> (application/x-www-form-urlencoded): letters,
  digits and \<^verbatim>\<open>* - . _\<close> stay, a space becomes \<^verbatim>\<open>+\<close>, every other byte becomes
  \<^verbatim>\<open>%XX\<close> in upper-case hexadecimal; pairs are written \<^verbatim>\<open>name=value\<close> and joined
  with \<^verbatim>\<open>&\<close>.
\<close>

definition form_unreserved :: string where
  "form_unreserved = ''ABCDEFGHIJKLMNOPQRSTUVWXYZabcdefghijklmnopqrstuvwxyz0123456789*-._''"

definition hexdigit :: "nat \<Rightarrow> char" where
  "hexdigit n = ''0123456789ABCDEF'' ! (n mod 16)"

definition form_encode_char :: "char \<Rightarrow> string" where
  "form_encode_char c =
     (if c \<in> set form_unreserved then [c]
      else if c = CHR '' '' then ''+''
      else [CHR ''%'', hexdigit (of_char c div 16), hexdigit (of_char c mod 16)])"

definition form_encode :: "string \<Rightarrow> string" where
  "form_encode s = concat (map form_encode_char s)"

fun urlencoded :: "(string \<times> string) list \<Rightarrow> string" where
  "urlencoded [] = []"
| "urlencoded [(n, v)] = form_encode n @ ''='' @ form_encode v"
| "urlencoded ((n, v) # p # ps) =
     form_encode n @ ''='' @ form_encode v @ ''&'' @ urlencoded (p # ps)"

text \<open>
  \<^verbatim>\<open>searchParams.set(name, value)\<close>: the first pair of that name takes the value and the
  later ones go; with no such pair, the pair is appended.
\<close>

fun searchParams_set :: "string \<Rightarrow> string \<Rightarrow> (string \<times> string) list \<Rightarrow> (string \<times> string) list" where
  "searchParams_set n v [] = [(n, v)]"
| "searchParams_set n v ((k, x) # ps) =
     (if k = n then (n, v) # filter (\<lambda>p. fst p \<noteq> n) ps
      else (k, x) # searchParams_set n v ps)"

text \<open>\<^verbatim>\<open>searchParams.getAll(name)\<close>: the values of the pairs of that name, in order.\<close>

definition searchParams_getAll :: "string \<Rightarrow> (string \<times> string) list \<Rightarrow> string list" where
  "searchParams_getAll n ps = map snd (filter (\<lambda>p. fst p = n) ps)"

text \<open>\<^verbatim>\<open>url.toString()\<close>: the query is left out when the list serialises to nothing.\<close>

definition URL_toString :: "URL \<Rightarrow> string" where
  "URL_toString u =
     href_base u
     @ (if urlencoded (searchParams u) = [] then [] else CHR ''?'' # urlencoded (searchParams u))
     @ (case fragment u of None \<Rightarrow> [] | Some f \<Rightarrow> CHR ''#'' # f)"

text \<open>\<^verbatim>\<open>Array.prototype.join\<close> with a separator.\<close>

fun join :: "string \<Rightarrow> string list \<Rightarrow> string" where
  "join sep [] = []"
| "join sep [x] = x"
| "join sep (x # y # ys) = x @ sep @ join sep (y # ys)"

text \<open>
  \<^verbatim>\<open>String.prototype.split\<close> with a one-character separator: every occurrence of the
  separator ends a piece, so the result has one piece more than there are separators.
\<close>

fun split :: "char \<Rightarrow> string \<Rightarrow> string list" where
  "split sep [] = [[]]"
| "split sep (c # cs) =
     (if c = sep then [] # split sep cs
      else (case split sep cs of [] \<Rightarrow> [[c]] | w # ws \<Rightarrow> (c # w) # ws))"

subsection \<open>The PKCE generator (lines 38-46)\<close>

text \<open>
  \<^verbatim>\<open>crypto.randomBytes(n)\<close> takes the next \<open>n\<close> bytes of the entropy source and throws when
  the source cannot supply them.
\<close>

definition randomBytes :: "nat \<Rightarrow> byte list \<Rightarrow> string + (byte list \<times> byte list)" where
  "randomBytes n src =
     (if length src < n then Inl ''EntropyUnavailable'' else Inr (take n src, drop n src))"

definition generatePKCE :: "runtime \<Rightarrow> byte list \<Rightarrow> string + (PKCE \<times> byte list)" where
  "generatePKCE rt src =
     (case randomBytes 32 src of
        Inl e \<Rightarrow> Inl e
      | Inr (bytes, src') \<Rightarrow>
          let verifier = base64url bytes;
              challenge = base64url (sha256 rt verifier)
          in Inr (\<lparr>PKCE.verifier = verifier, challenge = challenge\<rparr>, src'))"

definition generateState :: "byte list \<Rightarrow> string + (string \<times> byte list)" where
  "generateState src =
     (case randomBytes 32 src of
        Inl e \<Rightarrow> Inl e
      | Inr (bytes, src') \<Rightarrow> Inr (base64url bytes, src'))"

subsection \<open>The two tables\<close>

text \<open>
  Modelled from the spec: \<^verbatim>\<open>keyValue.upsert\<close> of the module \<^verbatim>\<open>@/services/db/crud\<close>, which
  is not among the sources. Section 6 gives the session store the single-key operations
  \<^verbatim>\<open>upsert(key, value)\<close>, \<^verbatim>\<open>get(key) -> value|null\<close> and \<^verbatim>\<open>delete(key)\<close>.
\<close>

definition keyValue_upsert :: "string \<Rightarrow> string \<Rightarrow> app \<Rightarrow> app" where
  "keyValue_upsert k v st = st\<lparr>keyValue := (keyValue st)(k \<mapsto> v)\<rparr>"

text \<open>Modelled from the spec: \<^verbatim>\<open>keyValue.get\<close> of the same module; \<open>None\<close> is \<^verbatim>\<open>null\<close>.\<close>

definition keyValue_get :: "app \<Rightarrow> string \<Rightarrow> string option" where
  "keyValue_get st k = keyValue st k"

text \<open>Modelled from the spec: \<^verbatim>\<open>keyValue.delete\<close> of the same module.\<close>

definition keyValue_delete :: "string \<Rightarrow> app \<Rightarrow> app" where
  "keyValue_delete k st = st\<lparr>keyValue := (keyValue st)(k := None)\<rparr>"

text \<open>
  Modelled from the spec: \<^verbatim>\<open>connection.upsert\<close> of the same module. Section 6 gives the
  credential store \<^verbatim>\<open>upsert({provider, secret, metadata})\<close> and
  \<^verbatim>\<open>getByProvider(provider) -> record|null\<close>, and section 3 at most one credential per
  provider: the row of the provider is replaced by the one given.
\<close>

definition connection_upsert :: "string \<Rightarrow> connection_row \<Rightarrow> app \<Rightarrow> app" where
  "connection_upsert provider row st = st\<lparr>connection := (connection st)(provider \<mapsto> row)\<rparr>"

text \<open>Modelled from the spec: \<^verbatim>\<open>connection.getByProvider\<close> of the same module.\<close>

definition connection_getByProvider :: "app \<Rightarrow> string \<Rightarrow> connection_row option" where
  "connection_getByProvider st provider = connection st provider"

subsection \<open>Starting a flow (lines 10-16 and 48-88)\<close>

text \<open>
  \<^verbatim>\<open>ensureOAuthConfig\<close>: the cached configuration, or the loader's answer, which is then
  cached. When the loader throws, nothing has been written.
\<close>

definition ensureOAuthConfig :: "app \<Rightarrow> string + config \<Rightarrow> string + (config \<times> app)" where
  "ensureOAuthConfig st loader =
     (case oauthConfig st of
        Some c \<Rightarrow> Inr (c, st)
      | None \<Rightarrow>
          (case loader of
             Inl e \<Rightarrow> Inl e
           | Inr c \<Rightarrow> Inr (c, st\<lparr>oauthConfig := Some c\<rparr>)))"

text \<open>Lines 54-62: the eight \<^verbatim>\<open>searchParams.set\<close> calls, in the order of the source.\<close>

definition build_authUrl :: "config \<Rightarrow> PKCE \<Rightarrow> string \<Rightarrow> URL \<Rightarrow> URL" where
  "build_authUrl config pkce state' authUrl =
     authUrl\<lparr>searchParams :=
       (searchParams_set ''code_challenge_method'' ''S256''
       (searchParams_set ''code_challenge'' (PKCE.challenge pkce)
       (searchParams_set ''state'' state'
       (searchParams_set ''scope'' (join '' '' (scopes config))
       (searchParams_set ''redirect_uri'' (redirectUri config)
       (searchParams_set ''response_type'' ''code''
       (searchParams_set ''client_id'' (clientId config)
       (searchParams_set ''code'' ''true'' (searchParams authUrl)))))))))\<rparr>"

text \<open>Lines 65-69: the object literal that is stored, as the value \<^verbatim>\<open>JSON.stringify\<close> receives.\<close>

definition oauthData_json :: "oauthData \<Rightarrow> json" where
  "oauthData_json d =
     JObj [(''verifier'', JStr (oauthData.verifier d)), (''state'', JStr (state d)),
           (''timestamp'', JNum (of_int (timestamp d)))]"

text \<open>
  The result of \<^verbatim>\<open>startAnthropicOAuth\<close>: \<^verbatim>\<open>{success: true, authUrl, verifier, state}\<close> or
  \<^verbatim>\<open>{success: false, error}\<close>.
\<close>

datatype start_result =
    StartSuccess string string string
  | StartFailure string

text \<open>The \<^verbatim>\<open>catch\<close> of lines 81-87.\<close>

definition start_catch :: "string \<Rightarrow> app \<Rightarrow> start_result \<times> app" where
  "start_catch e st =
     (StartFailure ''Failed to start OAuth flow'',
      st\<lparr>console := console st @ [(''Error starting OAuth flow:'', e)]\<rparr>)"

definition startAnthropicOAuth :: "runtime \<Rightarrow> env \<Rightarrow> app \<Rightarrow> start_result \<times> app" where
  "startAnthropicOAuth rt w st =
     (case ensureOAuthConfig st (getOAuthConfig w) of
        Inl e \<Rightarrow> start_catch e st
      | Inr (config, st1) \<Rightarrow>
          (case generatePKCE rt (entropy w) of
             Inl e \<Rightarrow> start_catch e st1
           | Inr (pkce, src1) \<Rightarrow>
               (case generateState src1 of
                  Inl e \<Rightarrow> start_catch e st1
                | Inr (state', src2) \<Rightarrow>
                    (case URL_parse rt (authorizeUrl config) of
                       None \<Rightarrow> start_catch ''Invalid URL'' st1
                     | Some url0 \<Rightarrow>
                         let authUrl = build_authUrl config pkce state' url0;
                             oauthData = \<lparr>oauthData.verifier = PKCE.verifier pkce, state = state',
                                          timestamp = Date_now w\<rparr>;
                             st2 = keyValue_upsert ''anthropic-oauth-data''
                                     (JSON_stringify rt (oauthData_json oauthData)) st1
                         in (StartSuccess (URL_toString authUrl) (PKCE.verifier pkce) state', st2)))))"

subsection \<open>Completing a flow (lines 90-204)\<close>

text \<open>
  Line 101: \<^verbatim>\<open>authCode.includes('#') ? authCode.split('#') : [authCode, null]\<close>,
  destructured into its first two elements. \<open>None\<close> is \<^verbatim>\<open>null\<close> or \<^verbatim>\<open>undefined\<close>. A
  string that contains the separator splits into two pieces at least, so the two short
  cases of the destructuring are never taken.
\<close>

definition parse_authCode :: "string \<Rightarrow> string \<times> string option" where
  "parse_authCode authCode =
     (if CHR ''#'' \<in> set authCode
      then (case split CHR ''#'' authCode of
              code # receivedState # _ \<Rightarrow> (code, Some receivedState)
            | [code] \<Rightarrow> (code, None)
            | [] \<Rightarrow> ([], None))
      else (authCode, None))"

text \<open>Line 138: \<^verbatim>\<open>receivedState || oauthData.state\<close>; the empty string is falsy.\<close>

definition sent_state :: "string option \<Rightarrow> oauthData \<Rightarrow> string" where
  "sent_state receivedState od =
     (case receivedState of
        None \<Rightarrow> state od
      | Some s \<Rightarrow> if s \<noteq> [] then s else state od)"

text \<open>Lines 132-139.\<close>

definition tokenPayload :: "config \<Rightarrow> string \<Rightarrow> string option \<Rightarrow> oauthData \<Rightarrow> json" where
  "tokenPayload config code receivedState od =
     JObj [(''grant_type'', JStr ''authorization_code''),
           (''code'', JStr code),
           (''redirect_uri'', JStr (redirectUri config)),
           (''client_id'', JStr (clientId config)),
           (''code_verifier'', JStr (oauthData.verifier od)),
           (''state'', JStr (sent_state receivedState od))]"

text \<open>Lines 141-147: the request of the token exchange.\<close>

definition token_request :: "runtime \<Rightarrow> config \<Rightarrow> string \<Rightarrow> string option \<Rightarrow> oauthData \<Rightarrow> request" where
  "token_request rt config code receivedState od =
     \<lparr>url = tokenUrl config, http_method = ''POST'',
      headers = [(''Content-Type'', ''application/json'')],
      body = JSON_stringify rt (tokenPayload config code receivedState od)\<rparr>"

text \<open>Lines 157-164: the request that asks for an API key.\<close>

definition apiKey_request :: "runtime \<Rightarrow> config \<Rightarrow> TokenResponse \<Rightarrow> request" where
  "apiKey_request rt config tokenData =
     \<lparr>url = apiKeyUrl config, http_method = ''POST'',
      headers = [(''Content-Type'', ''application/json''),
                 (''Authorization'', ''Bearer '' @ access_token tokenData)],
      body = JSON_stringify rt (JObj [])\<rparr>"

text \<open>Lines 178-184: the metadata object stored beside the key.\<close>

definition key_metadata :: "ApiKeyResponse \<Rightarrow> json" where
  "key_metadata apiKeyData =
     JObj [(''type'', JStr ''oauth_generated''),
           (''key_id'', JStr (key_id apiKeyData)),
           (''key_name'', JStr (name apiKeyData)),
           (''created_at'', JStr (created_at apiKeyData)),
           (''partial_key_hint'', JStr (partial_key_hint apiKeyData))]"

text \<open>
  The result of \<^verbatim>\<open>completeAnthropicOAuth\<close>: \<^verbatim>\<open>{success: true, apiKey, keyName}\<close> or
  \<^verbatim>\<open>{success: false, error}\<close>.
\<close>

datatype complete_result =
    CompleteSuccess string string
  | CompleteFailure string

text \<open>
  Lines 156-194, the second half of the \<^verbatim>\<open>try\<close> block. \<open>Inl m\<close> is an exception on its
  way to the \<^verbatim>\<open>catch\<close>, \<open>Inr r\<close> a \<^verbatim>\<open>return\<close>.
\<close>

definition create_api_key ::
  "runtime \<Rightarrow> env \<Rightarrow> config \<Rightarrow> TokenResponse \<Rightarrow> app \<Rightarrow> (string + complete_result) \<times> app" where
  "create_api_key rt w config tokenData st =
     (let req = apiKey_request rt config tokenData;
          st1 = st\<lparr>requests := requests st @ [req]\<rparr>
      in case fetch_apiKey w req of
           Inl e \<Rightarrow> (Inl e, st1)
         | Inr apiKeyResponse \<Rightarrow>
             if \<not> ok apiKeyResponse then
               (case text_body apiKeyResponse of
                  Inl e \<Rightarrow> (Inl e, st1)
                | Inr err \<Rightarrow> (Inl (''API key creation failed: '' @ err), st1))
             else
               (case json_body apiKeyResponse of
                  Inl e \<Rightarrow> (Inl e, st1)
                | Inr apiKeyData \<Rightarrow>
                    let st2 = connection_upsert ''Anthropic''
                                \<lparr>apikey = raw_key apiKeyData,
                                 google_Oauth = JSON_stringify rt (key_metadata apiKeyData)\<rparr> st1;
                        st3 = keyValue_delete ''anthropic-oauth-data'' st2
                    in (Inr (CompleteSuccess (raw_key apiKeyData) (name apiKeyData)), st3)))"

text \<open>Lines 131-154: the token exchange, then the second half.\<close>

definition exchange_code ::
  "runtime \<Rightarrow> env \<Rightarrow> config \<Rightarrow> string \<Rightarrow> string option \<Rightarrow> oauthData \<Rightarrow> app
     \<Rightarrow> (string + complete_result) \<times> app" where
  "exchange_code rt w config code receivedState od st =
     (let req = token_request rt config code receivedState od;
          st1 = st\<lparr>requests := requests st @ [req]\<rparr>
      in case fetch_token w req of
           Inl e \<Rightarrow> (Inl e, st1)
         | Inr tokenResponse \<Rightarrow>
             if \<not> ok tokenResponse then
               (case text_body tokenResponse of
                  Inl e \<Rightarrow> (Inl e, st1)
                | Inr err \<Rightarrow> (Inl (''Token exchange failed: '' @ err), st1))
             else
               (case json_body tokenResponse of
                  Inl e \<Rightarrow> (Inl e, st1)
                | Inr tokenData \<Rightarrow> create_api_key rt w config tokenData st1))"

text \<open>Lines 98-194: the \<^verbatim>\<open>try\<close> block.\<close>

definition complete_try ::
  "runtime \<Rightarrow> env \<Rightarrow> string \<Rightarrow> app \<Rightarrow> (string + complete_result) \<times> app" where
  "complete_try rt w authCode st =
     (case ensureOAuthConfig st (getOAuthConfig w) of
        Inl e \<Rightarrow> (Inl e, st)
      | Inr (config, st1) \<Rightarrow>
          (case parse_authCode authCode of
             (code, receivedState) \<Rightarrow>
               (case keyValue_get st1 ''anthropic-oauth-data'' of
                  None \<Rightarrow>
                    (Inr (CompleteFailure
                       ''OAuth session not found. Please start the authentication process again.''), st1)
                | Some storedData \<Rightarrow>
                    if storedData = [] then
                      (Inr (CompleteFailure
                         ''OAuth session not found. Please start the authentication process again.''), st1)
                    else
                      (case JSON_parse_oauthData rt storedData of
                         None \<Rightarrow> (Inr (CompleteFailure ''Invalid OAuth session data''), st1)
                       | Some od \<Rightarrow>
                           if Date_now w - timestamp od > 600000 then
                             (Inr (CompleteFailure ''OAuth session expired. Please try again.''),
                              keyValue_delete ''anthropic-oauth-data'' st1)
                           else exchange_code rt w config code receivedState od st1))))"

text \<open>
  The \<^verbatim>\<open>catch\<close> of lines 195-203: it logs, deletes the session value and reports the
  message of the exception, or a fixed text when the message is empty.
\<close>

definition complete_catch :: "string \<Rightarrow> app \<Rightarrow> complete_result \<times> app" where
  "complete_catch m st =
     (CompleteFailure (if m \<noteq> [] then m else ''Failed to complete OAuth flow''),
      keyValue_delete ''anthropic-oauth-data''
        (st\<lparr>console := console st @ [(''Error in OAuth callback:'', m)]\<rparr>))"

text \<open>The whole action: the guard of lines 91-96, the \<^verbatim>\<open>try\<close> block and its \<^verbatim>\<open>catch\<close>.\<close>

definition completeAnthropicOAuth :: "runtime \<Rightarrow> env \<Rightarrow> string \<Rightarrow> app \<Rightarrow> complete_result \<times> app" where
  "completeAnthropicOAuth rt w authCode st =
     (if authCode = [] then (CompleteFailure ''Missing authorization code'', st)
      else
        (case complete_try rt w authCode st of
           (Inr r, st') \<Rightarrow> (r, st')
         | (Inl m, st') \<Rightarrow> complete_catch m st'))"

subsection \<open>Status and logout (lines 206-261)\<close>

text \<open>
  Reading a property of a parsed value. \<open>get_prop\<close> is \<^verbatim>\<open>v.k\<close>, which throws on
  \<^verbatim>\<open>null\<close>; \<open>get_prop_opt\<close> is \<^verbatim>\<open>v?.k\<close>. \<open>None\<close> is \<^verbatim>\<open>undefined\<close>. The names the
  actions read (\<^verbatim>\<open>type\<close>, \<^verbatim>\<open>key_name\<close>, \<^verbatim>\<open>partial_key_hint\<close>) are not properties of
  any number, boolean, string or array.
\<close>

fun get_prop :: "json \<Rightarrow> string \<Rightarrow> string + json option" where
  "get_prop JNull k = Inl ''TypeError''"
| "get_prop (JObj ps) k = Inr (map_of ps k)"
| "get_prop v k = Inr None"

fun get_prop_opt :: "json \<Rightarrow> string \<Rightarrow> json option" where
  "get_prop_opt (JObj ps) k = map_of ps k"
| "get_prop_opt v k = None"

text \<open>
  The result of \<^verbatim>\<open>checkAnthropicAuthStatus\<close>: \<^verbatim>\<open>{authenticated: false}\<close> or
  \<^verbatim>\<open>{authenticated: true, isOAuthGenerated, keyName, keyHint}\<close>.
\<close>

datatype status_result =
    NotAuthenticated
  | Authenticated bool "json option" "json option"

text \<open>
  Lines 206-232. Nothing in the \<^verbatim>\<open>try\<close> block throws past the inner \<^verbatim>\<open>catch {}\<close>, so the
  outer \<^verbatim>\<open>catch\<close> is never entered; the state is returned as it came.
\<close>

definition checkAnthropicAuthStatus :: "runtime \<Rightarrow> app \<Rightarrow> status_result \<times> app" where
  "checkAnthropicAuthStatus rt st =
     (case connection_getByProvider st ''Anthropic'' of
        None \<Rightarrow> (NotAuthenticated, st)
      | Some providerConnection \<Rightarrow>
          if apikey providerConnection = [] then (NotAuthenticated, st)
          else
            let metadata =
                  (if google_Oauth providerConnection \<noteq> [] then
                     (case JSON_parse rt (google_Oauth providerConnection) of
                        None \<Rightarrow> JNull
                      | Some v \<Rightarrow> v)
                   else JNull)
            in (Authenticated
                  (get_prop_opt metadata ''type'' = Some (JStr ''oauth_generated''))
                  (get_prop_opt metadata ''key_name'')
                  (get_prop_opt metadata ''partial_key_hint''), st))"

datatype logout_result = LogoutSuccess | LogoutFailure string

text \<open>
  Lines 234-261. A \<^verbatim>\<open>JSON.parse\<close> that throws and a \<^verbatim>\<open>metadata.type\<close> on \<^verbatim>\<open>null\<close> both end
  in the inner \<^verbatim>\<open>catch {}\<close>.
\<close>

definition logoutAnthropicOAuth :: "runtime \<Rightarrow> app \<Rightarrow> logout_result \<times> app" where
  "logoutAnthropicOAuth rt st =
     (case connection_getByProvider st ''Anthropic'' of
        None \<Rightarrow> (LogoutSuccess, st)
      | Some providerConnection \<Rightarrow>
          if google_Oauth providerConnection = [] then (LogoutSuccess, st)
          else
            (case JSON_parse rt (google_Oauth providerConnection) of
               None \<Rightarrow> (LogoutSuccess, st)
             | Some metadata \<Rightarrow>
                 (case get_prop metadata ''type'' of
                    Inl e \<Rightarrow> (LogoutSuccess, st)
                  | Inr t \<Rightarrow>
                      if t = Some (JStr ''oauth_generated'') then
                        (LogoutSuccess,
                         connection_upsert ''Anthropic'' \<lparr>apikey = [], google_Oauth = []\<rparr> st)
                      else (LogoutSuccess, st))))"

text \<open>
  What it means for the stored credential to be marked as provisioned by the flow: the
  row of provider Anthropic has a non-empty metadata text that parses to an object whose
  \<^verbatim>\<open>type\<close> property is the string \<^verbatim>\<open>oauth_generated\<close>, the mark that line 179 writes.
\<close>

definition flow_provisioned :: "runtime \<Rightarrow> app \<Rightarrow> bool" where
  "flow_provisioned rt st =
     (case connection st ''Anthropic'' of
        None \<Rightarrow> False
      | Some row \<Rightarrow>
          google_Oauth row \<noteq> []
          \<and> (case JSON_parse rt (google_Oauth row) of
                Some (JObj ps) \<Rightarrow> map_of ps ''type'' = Some (JStr ''oauth_generated'')
              | _ \<Rightarrow> False))"

subsection \<open>The browser login flow (part_000, lines 6-67)\<close>

text \<open>
  The class \<^verbatim>\<open>GeminiOAuthService\<close> of \<^verbatim>\<open>@/lib/gemini-oauth\<close> is not among the sources.
  Its two methods are taken as the answers they give during one call; a promise is an
  opaque handle.
\<close>

type_synonym promise = nat

record gemini_env =
  isAuthenticated :: "string + bool"
  authWithWeb :: "string + (string \<times> promise)"

datatype service_call = Call_isAuthenticated | Call_authWithWeb

text \<open>
  The module state: the map \<^verbatim>\<open>authPromises\<close> (line 7), the timers set with
  \<^verbatim>\<open>setTimeout\<close> (delay in milliseconds and the key the callback will delete), and the
  calls made on the service so far.
\<close>

record gemini =
  authPromises :: "string \<rightharpoonup> promise"
  timers :: "(nat \<times> string) list"
  service_calls :: "service_call list"

text \<open>The declared result type of lines 28-33; \<open>None\<close> is an absent property.\<close>

record login_result =
  success :: bool
  authUrl :: "string option"
  message :: "string option"
  error :: "string option"

definition startGeminiOAuthLogin :: "gemini_env \<Rightarrow> gemini \<Rightarrow> login_result \<times> gemini" where
  "startGeminiOAuthLogin svc g =
     (let g1 = g\<lparr>service_calls := service_calls g @ [Call_isAuthenticated]\<rparr>
      in case isAuthenticated svc of
           Inl e \<Rightarrow> (\<lparr>success = False, authUrl = None, message = None, error = Some e\<rparr>, g1)
         | Inr already \<Rightarrow>
             if already then
               (\<lparr>success = True, authUrl = None, message = Some ''Already authenticated'',
                 error = None\<rparr>, g1)
             else
               (let g2 = g1\<lparr>service_calls := service_calls g1 @ [Call_authWithWeb]\<rparr>
                in case authWithWeb svc of
                     Inl e \<Rightarrow>
                       (\<lparr>success = False, authUrl = None, message = None, error = Some e\<rparr>, g2)
                   | Inr (u, loginCompletePromise) \<Rightarrow>
                       (\<lparr>success = True, authUrl = Some u,
                         message = Some ''Open the URL in your browser to authenticate'',
                         error = None\<rparr>,
                        g2\<lparr>authPromises := (authPromises g2)(u \<mapsto> loginCompletePromise),
                           timers := timers g2 @ [(300000, u)]\<rparr>)))"

subsection \<open>Sample values\<close>

text \<open>
  Concrete values at which the theorems below are instantiated: a configuration, an
  entropy source of sixty-four bytes, the session value a flow started at time 1000
  stores from them, and the answers of the two endpoints in the scenario of section 8 of
  the specification (the field \<open>status\<close>, which that scenario leaves out, is never read).
\<close>

definition sample_config :: config where
  "sample_config =
     \<lparr>clientId = ''client-1'',
      authorizeUrl = ''https://auth.example/oauth/authorize'',
      tokenUrl = ''https://auth.example/oauth/token'',
      apiKeyUrl = ''https://api.example/create_api_key'',
      redirectUri = ''https://app.example/callback'',
      scopes = [''org:create_api_key'', ''user:profile'']\<rparr>"

definition sample_entropy :: "byte list" where
  "sample_entropy = replicate 32 0 @ replicate 32 255"

definition sample_attempt :: oauthData where
  "sample_attempt =
     \<lparr>oauthData.verifier = ''AAAAAAAAAAAAAAAAAAAAAAAAAAAAAAAAAAAAAAAAAAA'',
      state = ''__________________________________________8'',
      timestamp = 1000\<rparr>"

definition sample_attempt_text :: string where
  \<open>sample_attempt_text =
     ''{"verifier":"AAAAAAAAAAAAAAAAAAAAAAAAAAAAAAAAAAAAAAAAAAA","state":"__________________________________________8","timestamp":1000}''\<close>

definition sample_token :: TokenResponse where
  "sample_token = \<lparr>access_token = ''tok'', refresh_token = None, expires_in = 3600\<rparr>"

definition sample_key :: ApiKeyResponse where
  "sample_key =
     \<lparr>raw_key = ''sk-abc'', key_id = ''1'', name = ''n'', created_at = ''2024-01-01'',
      partial_key_hint = ''sk-...c'', status = ''active''\<rparr>"

definition sample_metadata_text :: string where
  \<open>sample_metadata_text =
     ''{"type":"oauth_generated","key_id":"1","key_name":"n","created_at":"2024-01-01","partial_key_hint":"sk-...c"}''\<close>

definition named_after_key_text :: string where
  \<open>named_after_key_text = ''{"key_name":"sk-abc"}''\<close>

text \<open>The URL object the sample authorisation URL parses to.\<close>

definition sample_url :: URL where
  "sample_url =
     \<lparr>href_base = ''https://auth.example/oauth/authorize'', searchParams = [], fragment = None\<rparr>"

text \<open>
  A stand-in for the platform that knows the answers the examples need: it serialises
  the two sample objects, parses the three sample texts, parses the sample authorisation
  URL, and digests every string to thirty-two zero bytes. On any other argument
  \<open>JSON_stringify\<close> answers \<^verbatim>\<open>{}\<close> and the parsers throw.
\<close>

definition sample_runtime :: runtime where
  "sample_runtime =
     \<lparr>JSON_parse = (\<lambda>s.
        if s = sample_metadata_text then Some (key_metadata sample_key)
        else if s = named_after_key_text then Some (JObj [(''key_name'', JStr ''sk-abc'')])
        else None),
      JSON_parse_oauthData = (\<lambda>s. if s = sample_attempt_text then Some sample_attempt else None),
      JSON_stringify = (\<lambda>j.
        if j = oauthData_json sample_attempt then sample_attempt_text
        else if j = key_metadata sample_key then sample_metadata_text
        else ''{}''),
      URL_parse = (\<lambda>s.
        if s = authorizeUrl sample_config then Some sample_url else None),
      sha256 = (\<lambda>s. replicate 32 0)\<rparr>"

text \<open>
  An environment at clock reading \<open>now\<close> in which the loader answers the sample
  configuration and both endpoints answer 200 with the sample bodies.
\<close>

definition sample_env :: "int \<Rightarrow> env" where
  "sample_env now =
     \<lparr>getOAuthConfig = Inr sample_config,
      entropy = sample_entropy,
      Date_now = now,
      fetch_token = (\<lambda>req. Inr \<lparr>ok = True, text_body = Inr [], json_body = Inr sample_token\<rparr>),
      fetch_apiKey = (\<lambda>req. Inr \<lparr>ok = True, text_body = Inr [], json_body = Inr sample_key\<rparr>)\<rparr>"

text \<open>A fresh process with empty tables, and the same with the sample session value stored.\<close>

definition empty_app :: app where
  "empty_app =
     \<lparr>oauthConfig = None, keyValue = Map.empty, connection = Map.empty, requests = [],
      console = []\<rparr>"

definition started_app :: app where
  "started_app =
     empty_app\<lparr>oauthConfig := Some sample_config,
               keyValue := [''anthropic-oauth-data'' \<mapsto> sample_attempt_text]\<rparr>"

text \<open>
  A process started anew after a flow was begun: the sample session value is in the
  table, the module cache is empty. And an environment like \<open>sample_env\<close> whose
  configuration loader throws.
\<close>

definition restarted_app :: app where
  "restarted_app = empty_app\<lparr>keyValue := [''anthropic-oauth-data'' \<mapsto> sample_attempt_text]\<rparr>"

definition unconfigured_env :: "int \<Rightarrow> env" where
  "unconfigured_env now = (sample_env now)\<lparr>getOAuthConfig := Inl ''OAuth configuration not found''\<rparr>"

text \<open>
  Three credential tables: one written by a completed sample flow, one holding a key the
  user entered directly (no metadata), and one whose metadata names the key after its
  value.
\<close>

definition provisioned_app :: app where
  "provisioned_app =
     empty_app\<lparr>connection :=
       [''Anthropic'' \<mapsto> \<lparr>apikey = ''sk-abc'', google_Oauth = sample_metadata_text\<rparr>]\<rparr>"

definition manual_app :: app where
  "manual_app =
     empty_app\<lparr>connection := [''Anthropic'' \<mapsto> \<lparr>apikey = ''sk-manual'', google_Oauth = []\<rparr>]\<rparr>"

definition named_app :: app where
  "named_app =
     empty_app\<lparr>connection :=
       [''Anthropic'' \<mapsto> \<lparr>apikey = ''sk-abc'', google_Oauth = named_after_key_text\<rparr>]\<rparr>"

text \<open>A login service that reports an existing login, and a fresh module state.\<close>

definition logged_in_service :: gemini_env where
  "logged_in_service =
     \<lparr>isAuthenticated = Inr True, authWithWeb = Inr (''https://accounts.example/login'', 7)\<rparr>"

definition empty_gemini :: gemini where
  "empty_gemini = \<lparr>authPromises = Map.empty, timers = [], service_calls = []\<rparr>"

section \<open>Properties\<close>

subsection \<open>The encodings\<close>

lemma b64url_char_in: "b64url_char n \<in> set b64url_alphabet"
proof -
  have "length b64url_alphabet = 64" by (simp add: b64url_alphabet_def)
  then have "n mod 64 < length b64url_alphabet" by simp
  then show ?thesis unfolding b64url_char_def by (rule nth_mem)
qed

lemma base64url_alphabet: "set (base64url bs) \<subseteq> set b64url_alphabet"
  by (induction bs rule: base64url.induct) (simp_all add: b64url_char_in)

lemma b64url_no_padding: "CHR ''='' \<notin> set b64url_alphabet"
  by (simp add: b64url_alphabet_def)

lemma length_base64url: "length (base64url bs) = (4 * length bs + 2) div 3"
  by (induction bs rule: base64url.induct) simp_all

lemma sample_verifier: "base64url (take 32 sample_entropy) = oauthData.verifier sample_attempt"
  by code_simp

lemma sample_state: "base64url (take 32 (drop 32 sample_entropy)) = state sample_attempt"
  by code_simp

subsection \<open>The PKCE pair\<close>

text \<open>
  C7. Whenever the entropy source holds thirty-two bytes, \<open>generatePKCE\<close> returns a pair
  and consumes exactly those bytes: the verifier is the base64url encoding of the
  thirty-two bytes, the challenge is the base64url encoding of the SHA-256 digest of the
  verifier string, both consist of characters of the URL-safe alphabet only, so neither
  carries a padding character, and the verifier has the 43 characters of an unpadded
  encoding of thirty-two bytes.
\<close>

theorem generatePKCE_roundtrip:
  assumes "32 \<le> length src"
  shows "\<exists>p. generatePKCE rt src = Inr (p, drop 32 src)
           \<and> length (take 32 src) = 32
           \<and> PKCE.verifier p = base64url (take 32 src)
           \<and> PKCE.challenge p = base64url (sha256 rt (PKCE.verifier p))
           \<and> set (PKCE.verifier p) \<subseteq> set b64url_alphabet
           \<and> set (PKCE.challenge p) \<subseteq> set b64url_alphabet
           \<and> CHR ''='' \<notin> set (PKCE.verifier p)
           \<and> CHR ''='' \<notin> set (PKCE.challenge p)
           \<and> length (PKCE.verifier p) = 43"
proof -
  let ?v = "base64url (take 32 src)"
  let ?p = "\<lparr>PKCE.verifier = ?v, challenge = base64url (sha256 rt ?v)\<rparr>"
  have run: "generatePKCE rt src = Inr (?p, drop 32 src)"
    using assms by (simp add: generatePKCE_def randomBytes_def Let_def)
  have pad: "CHR ''='' \<notin> set (base64url bs)" for bs
    using base64url_alphabet [of bs] b64url_no_padding by blast
  have len: "length ?v = 43"
    using assms by (simp add: length_base64url)
  show ?thesis
    using run assms len pad base64url_alphabet by (intro exI [of _ ?p]) simp
qed

theorem generatePKCE_roundtrip_witness:
  "32 \<le> length sample_entropy
   \<and> (\<exists>p. generatePKCE sample_runtime sample_entropy = Inr (p, drop 32 sample_entropy)
           \<and> length (take 32 sample_entropy) = 32
           \<and> PKCE.verifier p = base64url (take 32 sample_entropy)
           \<and> PKCE.challenge p = base64url (sha256 sample_runtime (PKCE.verifier p))
           \<and> set (PKCE.verifier p) \<subseteq> set b64url_alphabet
           \<and> set (PKCE.challenge p) \<subseteq> set b64url_alphabet
           \<and> CHR ''='' \<notin> set (PKCE.verifier p)
           \<and> CHR ''='' \<notin> set (PKCE.challenge p)
           \<and> length (PKCE.verifier p) = 43)"
proof -
  have h: "32 \<le> length sample_entropy" by (simp add: sample_entropy_def)
  show ?thesis using h generatePKCE_roundtrip [OF h, of sample_runtime] by blast
qed

subsection \<open>Starting and completing a flow\<close>

lemma searchParams_set_mem: "(n, v) \<in> set (searchParams_set n v ps)"
  by (induction ps) auto

lemma urlencoded_sublist:
  "(n, v) \<in> set ps \<Longrightarrow> sublist (form_encode n @ ''='' @ form_encode v) (urlencoded ps)"
proof (induction ps rule: urlencoded.induct)
  case 1
  then show ?case by simp
next
  case (2 n' v')
  then show ?case by simp
next
  case (3 n' v' p ps)
  show ?case
  proof (cases "(n, v) = (n', v')")
    case True
    then show ?thesis
      using sublist_appendI [of "form_encode n @ ''='' @ form_encode v" "[]" "''&'' @ urlencoded (p # ps)"]
      by simp
  next
    case False
    with 3 have "sublist (form_encode n @ ''='' @ form_encode v) (urlencoded (p # ps))"
      by auto
    then obtain xs ys where "urlencoded (p # ps) = xs @ (form_encode n @ ''='' @ form_encode v) @ ys"
      by (auto simp: sublist_def)
    then have "urlencoded ((n', v') # p # ps) =
        (form_encode n' @ ''='' @ form_encode v' @ ''&'' @ xs) @ (form_encode n @ ''='' @ form_encode v) @ ys"
      by simp
    then show ?thesis unfolding sublist_def by blast
  qed
qed

lemma form_encode_method: "form_encode ''code_challenge_method'' = ''code_challenge_method''"
  by (simp add: form_encode_def form_encode_char_def form_unreserved_def)

lemma form_encode_S256: "form_encode ''S256'' = ''S256''"
  by (simp add: form_encode_def form_encode_char_def form_unreserved_def)

lemma authUrl_contains_S256:
  "sublist ''code_challenge_method=S256'' (URL_toString (build_authUrl c p s u))"
proof -
  let ?ps = "searchParams (build_authUrl c p s u)"
  have "(''code_challenge_method'', ''S256'') \<in> set ?ps"
    unfolding build_authUrl_def by (simp add: searchParams_set_mem)
  then have "sublist (form_encode ''code_challenge_method'' @ ''='' @ form_encode ''S256'') (urlencoded ?ps)"
    by (rule urlencoded_sublist)
  then have sub: "sublist ''code_challenge_method=S256'' (urlencoded ?ps)"
    by (simp add: form_encode_method form_encode_S256)
  then obtain xs ys where q: "urlencoded ?ps = xs @ ''code_challenge_method=S256'' @ ys"
    by (auto simp: sublist_def)
  then have ne: "urlencoded ?ps \<noteq> []" by auto
  have "URL_toString (build_authUrl c p s u) =
      (href_base (build_authUrl c p s u) @ CHR ''?'' # xs) @ ''code_challenge_method=S256''
      @ (ys @ (case fragment (build_authUrl c p s u) of None \<Rightarrow> [] | Some f \<Rightarrow> CHR ''#'' # f))"
    unfolding URL_toString_def using ne q by simp
  then show ?thesis unfolding sublist_def by blast
qed

lemma ensureOAuthConfig_cached:
  assumes "ensureOAuthConfig st loader = Inr (c, st')"
  shows "st' = st\<lparr>oauthConfig := Some c\<rparr>" and "ensureOAuthConfig st' loader' = Inr (c, st')"
  using assms by (auto simp: ensureOAuthConfig_def split: option.splits sum.splits)

lemma startAnthropicOAuth_success:
  assumes cfg: "ensureOAuthConfig st (getOAuthConfig w) = Inr (c, st0)"
    and url: "URL_parse rt (authorizeUrl c) = Some u"
    and ent: "64 \<le> length (entropy w)"
  shows "startAnthropicOAuth rt w st =
     (StartSuccess
        (URL_toString (build_authUrl c
           \<lparr>PKCE.verifier = base64url (take 32 (entropy w)),
            challenge = base64url (sha256 rt (base64url (take 32 (entropy w))))\<rparr>
           (base64url (take 32 (drop 32 (entropy w)))) u))
        (base64url (take 32 (entropy w)))
        (base64url (take 32 (drop 32 (entropy w)))),
      keyValue_upsert ''anthropic-oauth-data''
        (JSON_stringify rt (oauthData_json
           \<lparr>oauthData.verifier = base64url (take 32 (entropy w)),
            state = base64url (take 32 (drop 32 (entropy w))),
            timestamp = Date_now w\<rparr>)) st0)"
proof -
  have one: "randomBytes 32 (entropy w) = Inr (take 32 (entropy w), drop 32 (entropy w))"
    using ent by (simp add: randomBytes_def)
  have two: "randomBytes 32 (drop 32 (entropy w))
      = Inr (take 32 (drop 32 (entropy w)), drop 32 (drop 32 (entropy w)))"
    using ent unfolding randomBytes_def by (simp del: drop_drop)
  show ?thesis
    unfolding startAnthropicOAuth_def generatePKCE_def generateState_def
    by (simp add: cfg url one two Let_def del: drop_drop)
qed

lemma create_api_key_success:
  assumes "fetch_apiKey w (apiKey_request rt c tokenData)
             = Inr \<lparr>ok = True, text_body = kb, json_body = Inr apiKeyData\<rparr>"
  shows "create_api_key rt w c tokenData st =
     (Inr (CompleteSuccess (raw_key apiKeyData) (name apiKeyData)),
      keyValue_delete ''anthropic-oauth-data''
        (connection_upsert ''Anthropic''
           \<lparr>apikey = raw_key apiKeyData,
            google_Oauth = JSON_stringify rt (key_metadata apiKeyData)\<rparr>
           (st\<lparr>requests := requests st @ [apiKey_request rt c tokenData]\<rparr>)))"
  using assms by (simp add: create_api_key_def Let_def)

lemma exchange_code_success:
  assumes "fetch_token w (token_request rt c code rs od)
             = Inr \<lparr>ok = True, text_body = tb, json_body = Inr tokenData\<rparr>"
  shows "exchange_code rt w c code rs od st =
     create_api_key rt w c tokenData (st\<lparr>requests := requests st @ [token_request rt c code rs od]\<rparr>)"
  using assms by (simp add: exchange_code_def Let_def)

lemma complete_try_reaches_exchange:
  assumes cfg: "ensureOAuthConfig st (getOAuthConfig w) = Inr (c, st1)"
    and stored: "keyValue st ''anthropic-oauth-data'' = Some v" "v \<noteq> []"
    and parsed: "JSON_parse_oauthData rt v = Some od"
    and fresh: "Date_now w - timestamp od \<le> 600000"
  shows "complete_try rt w authCode st =
     exchange_code rt w c (fst (parse_authCode authCode)) (snd (parse_authCode authCode)) od st1"
proof -
  have "st1 = st\<lparr>oauthConfig := Some c\<rparr>"
    using cfg by (rule ensureOAuthConfig_cached)
  then have "keyValue_get st1 ''anthropic-oauth-data'' = Some v"
    using stored by (simp add: keyValue_get_def)
  then show ?thesis
    using cfg stored parsed fresh
    by (simp add: complete_try_def split: prod.splits)
qed

text \<open>
  C1. Take any configuration that resolves (from the cache or from the loader) and whose
  authorisation URL parses, an entropy source holding sixty-four bytes, and a platform on
  which the stored session value is a non-empty text that parses back to what was
  stored. Then \<open>startAnthropicOAuth\<close> succeeds with a URL that contains
  \<^verbatim>\<open>code_challenge_method=S256\<close> and stores the attempt; and when \<open>completeAnthropicOAuth\<close>
  is called on the resulting state with any non-empty code, not later than 600000 ms
  after the start, against a token endpoint and an issuance endpoint that both answer
  with success, it returns success with the issued key and its name, the credential row
  of provider Anthropic holds that key with the metadata text, the attempt is deleted,
  and a following \<open>checkAnthropicAuthStatus\<close> reports authenticated (the issued key being
  non-empty). The instance below it is the scenario of the specification: code
  \<^verbatim>\<open>code123\<close>, token \<^verbatim>\<open>tok\<close>, key \<^verbatim>\<open>sk-abc\<close> named \<^verbatim>\<open>n\<close>.
\<close>

theorem happy_path:
  assumes cfg: "ensureOAuthConfig st (getOAuthConfig w1) = Inr (c, st0)"
    and url: "URL_parse rt (authorizeUrl c) = Some u"
    and ent: "64 \<le> length (entropy w1)"
    and d: "d = \<lparr>oauthData.verifier = base64url (take 32 (entropy w1)),
                 state = base64url (take 32 (drop 32 (entropy w1))),
                 timestamp = Date_now w1\<rparr>"
    and ne: "JSON_stringify rt (oauthData_json d) \<noteq> []"
    and rtrip: "JSON_parse_oauthData rt (JSON_stringify rt (oauthData_json d)) = Some d"
    and code: "authCode \<noteq> []"
    and time: "Date_now w2 - Date_now w1 \<le> 600000"
    and tok: "\<And>req. fetch_token w2 req = Inr \<lparr>ok = True, text_body = tb, json_body = Inr tokenData\<rparr>"
    and key: "\<And>req. fetch_apiKey w2 req = Inr \<lparr>ok = True, text_body = kb, json_body = Inr apiKeyData\<rparr>"
    and secret: "raw_key apiKeyData \<noteq> []"
  shows "\<exists>a st1 st2.
           startAnthropicOAuth rt w1 st = (StartSuccess a (oauthData.verifier d) (state d), st1)
         \<and> sublist ''code_challenge_method=S256'' a
         \<and> keyValue st1 ''anthropic-oauth-data'' = Some (JSON_stringify rt (oauthData_json d))
         \<and> completeAnthropicOAuth rt w2 authCode st1
             = (CompleteSuccess (raw_key apiKeyData) (name apiKeyData), st2)
         \<and> connection st2 ''Anthropic''
             = Some \<lparr>apikey = raw_key apiKeyData,
                     google_Oauth = JSON_stringify rt (key_metadata apiKeyData)\<rparr>
         \<and> keyValue st2 ''anthropic-oauth-data'' = None
         \<and> (\<exists>g n h. checkAnthropicAuthStatus rt st2 = (Authenticated g n h, st2))"
proof -
  let ?v = "JSON_stringify rt (oauthData_json d)"
  let ?p = "\<lparr>PKCE.verifier = oauthData.verifier d,
             challenge = base64url (sha256 rt (oauthData.verifier d))\<rparr>"
  let ?a = "URL_toString (build_authUrl c ?p (state d) u)"
  let ?st1 = "keyValue_upsert ''anthropic-oauth-data'' ?v st0"
  let ?code = "fst (parse_authCode authCode)"
  let ?rs = "snd (parse_authCode authCode)"
  let ?st2 = "keyValue_delete ''anthropic-oauth-data''
        (connection_upsert ''Anthropic''
           \<lparr>apikey = raw_key apiKeyData,
            google_Oauth = JSON_stringify rt (key_metadata apiKeyData)\<rparr>
           (?st1\<lparr>requests := requests ?st1 @ [token_request rt c ?code ?rs d,
                                               apiKey_request rt c tokenData]\<rparr>))"
  have st0: "st0 = st\<lparr>oauthConfig := Some c\<rparr>"
    using cfg by (rule ensureOAuthConfig_cached)
  have start: "startAnthropicOAuth rt w1 st = (StartSuccess ?a (oauthData.verifier d) (state d), ?st1)"
    using startAnthropicOAuth_success [OF cfg url ent] by (simp add: d)
  have contains: "sublist ''code_challenge_method=S256'' ?a"
    by (rule authUrl_contains_S256)
  have stored: "keyValue ?st1 ''anthropic-oauth-data'' = Some ?v"
    by (simp add: keyValue_upsert_def)
  have cfg1: "ensureOAuthConfig ?st1 (getOAuthConfig w2) = Inr (c, ?st1)"
    by (simp add: st0 ensureOAuthConfig_def keyValue_upsert_def)
  have fresh: "Date_now w2 - timestamp d \<le> 600000"
    using time by (simp add: d)
  have "complete_try rt w2 authCode ?st1 = exchange_code rt w2 c ?code ?rs d ?st1"
    using cfg1 stored ne rtrip fresh by (rule complete_try_reaches_exchange)
  also have "\<dots> = create_api_key rt w2 c tokenData
       (?st1\<lparr>requests := requests ?st1 @ [token_request rt c ?code ?rs d]\<rparr>)"
    using tok by (rule exchange_code_success)
  also have "\<dots> = (Inr (CompleteSuccess (raw_key apiKeyData) (name apiKeyData)), ?st2)"
    using create_api_key_success [OF key] by simp
  finally have "complete_try rt w2 authCode ?st1
      = (Inr (CompleteSuccess (raw_key apiKeyData) (name apiKeyData)), ?st2)" .
  then have complete: "completeAnthropicOAuth rt w2 authCode ?st1
      = (CompleteSuccess (raw_key apiKeyData) (name apiKeyData), ?st2)"
    using code by (simp add: completeAnthropicOAuth_def)
  have row: "connection ?st2 ''Anthropic''
      = Some \<lparr>apikey = raw_key apiKeyData,
              google_Oauth = JSON_stringify rt (key_metadata apiKeyData)\<rparr>"
    by (simp add: keyValue_delete_def connection_upsert_def)
  have gone: "keyValue ?st2 ''anthropic-oauth-data'' = None"
    by (simp add: keyValue_delete_def)
  have status: "\<exists>g n h. checkAnthropicAuthStatus rt ?st2 = (Authenticated g n h, ?st2)"
    using row secret
    by (simp add: checkAnthropicAuthStatus_def connection_getByProvider_def Let_def)
  show ?thesis
    using start contains stored complete row gone status by blast
qed

theorem happy_path_witness:
  "\<exists>a st1 st2.
       startAnthropicOAuth sample_runtime (sample_env 1000) empty_app
         = (StartSuccess a (oauthData.verifier sample_attempt) (state sample_attempt), st1)
     \<and> sublist ''code_challenge_method=S256'' a
     \<and> keyValue st1 ''anthropic-oauth-data'' = Some sample_attempt_text
     \<and> completeAnthropicOAuth sample_runtime (sample_env 61000) ''code123'' st1
         = (CompleteSuccess ''sk-abc'' ''n'', st2)
     \<and> connection st2 ''Anthropic''
         = Some \<lparr>apikey = ''sk-abc'', google_Oauth = sample_metadata_text\<rparr>
     \<and> keyValue st2 ''anthropic-oauth-data'' = None
     \<and> (\<exists>g n h. checkAnthropicAuthStatus sample_runtime st2 = (Authenticated g n h, st2))"
proof -
  have cfg: "ensureOAuthConfig empty_app (getOAuthConfig (sample_env 1000))
      = Inr (sample_config, empty_app\<lparr>oauthConfig := Some sample_config\<rparr>)"
    by (simp add: ensureOAuthConfig_def empty_app_def sample_env_def)
  have url: "URL_parse sample_runtime (authorizeUrl sample_config) = Some sample_url"
    by (simp add: sample_runtime_def)
  have ent: "64 \<le> length (entropy (sample_env 1000))"
    by (simp add: sample_env_def sample_entropy_def)
  have d: "sample_attempt = \<lparr>oauthData.verifier = base64url (take 32 (entropy (sample_env 1000))),
                 state = base64url (take 32 (drop 32 (entropy (sample_env 1000)))),
                 timestamp = Date_now (sample_env 1000)\<rparr>"
    using sample_verifier sample_state by (simp add: sample_env_def sample_attempt_def)
  have str: "JSON_stringify sample_runtime (oauthData_json sample_attempt) = sample_attempt_text"
    by (simp add: sample_runtime_def)
  have ne: "JSON_stringify sample_runtime (oauthData_json sample_attempt) \<noteq> []"
    unfolding str by (simp add: sample_attempt_text_def)
  have rtrip: "JSON_parse_oauthData sample_runtime
      (JSON_stringify sample_runtime (oauthData_json sample_attempt)) = Some sample_attempt"
    unfolding str by (simp add: sample_runtime_def)
  have code: "''code123'' \<noteq> []" by simp
  have time: "Date_now (sample_env 61000) - Date_now (sample_env 1000) \<le> 600000"
    by (simp add: sample_env_def)
  have tok: "\<And>req. fetch_token (sample_env 61000) req
      = Inr \<lparr>ok = True, text_body = Inr [], json_body = Inr sample_token\<rparr>"
    by (simp add: sample_env_def)
  have key: "\<And>req. fetch_apiKey (sample_env 61000) req
      = Inr \<lparr>ok = True, text_body = Inr [], json_body = Inr sample_key\<rparr>"
    by (simp add: sample_env_def)
  have secret: "raw_key sample_key \<noteq> []" by (simp add: sample_key_def)
  have meta: "JSON_stringify sample_runtime (key_metadata sample_key) = sample_metadata_text"
    by (simp add: sample_runtime_def key_metadata_def oauthData_json_def)
  have vals: "raw_key sample_key = ''sk-abc''" "name sample_key = ''n''"
    by (simp_all add: sample_key_def)
  show ?thesis
    using happy_path [OF cfg url ent d ne rtrip code time tok key secret]
    unfolding str meta vals .
qed

subsection \<open>Failures of completion\<close>

lemma complete_try_expired:
  assumes cfg: "ensureOAuthConfig st (getOAuthConfig w) = Inr (c, st1)"
    and stored: "keyValue st ''anthropic-oauth-data'' = Some v" "v \<noteq> []"
    and parsed: "JSON_parse_oauthData rt v = Some od"
    and late: "Date_now w - timestamp od > 600000"
  shows "complete_try rt w authCode st =
     (Inr (CompleteFailure ''OAuth session expired. Please try again.''),
      keyValue_delete ''anthropic-oauth-data'' st1)"
proof -
  have "st1 = st\<lparr>oauthConfig := Some c\<rparr>"
    using cfg by (rule ensureOAuthConfig_cached)
  then have "keyValue_get st1 ''anthropic-oauth-data'' = Some v"
    using stored by (simp add: keyValue_get_def)
  then show ?thesis
    using cfg stored parsed late
    by (simp add: complete_try_def split: prod.splits)
qed

lemma status_depends_on_connection:
  "connection st' = connection st \<Longrightarrow>
     fst (checkAnthropicAuthStatus rt st') = fst (checkAnthropicAuthStatus rt st)"
  by (simp add: checkAnthropicAuthStatus_def connection_getByProvider_def Let_def
      split: option.splits)

lemma complete_try_unconfigured:
  assumes "ensureOAuthConfig st (getOAuthConfig w) = Inl m"
  shows "complete_try rt w authCode st = (Inl m, st)"
  using assms by (simp add: complete_try_def)

lemma complete_unconfigured:
  assumes code: "authCode \<noteq> []"
    and cfg: "ensureOAuthConfig st (getOAuthConfig w) = Inl m"
  shows "completeAnthropicOAuth rt w authCode st =
     (CompleteFailure (if m \<noteq> [] then m else ''Failed to complete OAuth flow''),
      keyValue_delete ''anthropic-oauth-data''
        (st\<lparr>console := console st @ [(''Error in OAuth callback:'', m)]\<rparr>))"
  using code complete_try_unconfigured [OF cfg]
  by (simp add: completeAnthropicOAuth_def complete_catch_def)

text \<open>
  C3 (amended). Let the stored session value be a non-empty text that parses to an
  attempt. If \<open>completeAnthropicOAuth\<close> is called with a non-empty code when the clock
  reads more than 600000 ms past the attempt's timestamp, it fails; in the state it
  returns the attempt is deleted, no request has been sent, the credential table is as
  before, and \<open>checkAnthropicAuthStatus\<close> answers what it answered before the call. The
  error is the session-expired message whenever the provider configuration resolves
  (from the module cache or from the loader). When the loader throws, the error is the
  loader's message (a fixed text when that message is empty).
\<close>

theorem expired_session:
  assumes code: "authCode \<noteq> []"
    and stored: "keyValue st ''anthropic-oauth-data'' = Some v" "v \<noteq> []"
    and parsed: "JSON_parse_oauthData rt v = Some od"
    and late: "Date_now w - timestamp od > 600000"
  shows "\<exists>e st'. completeAnthropicOAuth rt w authCode st = (CompleteFailure e, st')
           \<and> keyValue st' ''anthropic-oauth-data'' = None
           \<and> requests st' = requests st
           \<and> connection st' = connection st
           \<and> fst (checkAnthropicAuthStatus rt st') = fst (checkAnthropicAuthStatus rt st)
           \<and> (\<forall>c st1. ensureOAuthConfig st (getOAuthConfig w) = Inr (c, st1)
                 \<longrightarrow> e = ''OAuth session expired. Please try again.'')
           \<and> (\<forall>m. ensureOAuthConfig st (getOAuthConfig w) = Inl m
                 \<longrightarrow> e = (if m \<noteq> [] then m else ''Failed to complete OAuth flow''))"
proof (cases "ensureOAuthConfig st (getOAuthConfig w)")
  case (Inl m)
  let ?e = "if m \<noteq> [] then m else ''Failed to complete OAuth flow''"
  let ?st' = "keyValue_delete ''anthropic-oauth-data''
        (st\<lparr>console := console st @ [(''Error in OAuth callback:'', m)]\<rparr>)"
  have run: "completeAnthropicOAuth rt w authCode st = (CompleteFailure ?e, ?st')"
    using code Inl by (rule complete_unconfigured)
  have conn: "connection ?st' = connection st"
    by (simp add: keyValue_delete_def)
  have gone: "keyValue ?st' ''anthropic-oauth-data'' = None"
    by (simp add: keyValue_delete_def)
  have req: "requests ?st' = requests st"
    by (simp add: keyValue_delete_def)
  have same: "fst (checkAnthropicAuthStatus rt ?st') = fst (checkAnthropicAuthStatus rt st)"
    using conn by (rule status_depends_on_connection)
  show ?thesis
    using run conn gone req same Inl by (intro exI [of _ ?e] exI [of _ ?st']) simp
next
  case (Inr p)
  then obtain c st1 where cfg: "ensureOAuthConfig st (getOAuthConfig w) = Inr (c, st1)"
    by (cases p) auto
  let ?e = "''OAuth session expired. Please try again.''"
  let ?st' = "keyValue_delete ''anthropic-oauth-data'' st1"
  have st1: "st1 = st\<lparr>oauthConfig := Some c\<rparr>"
    using cfg by (rule ensureOAuthConfig_cached)
  have run: "completeAnthropicOAuth rt w authCode st = (CompleteFailure ?e, ?st')"
    using code complete_try_expired [OF cfg stored parsed late]
    by (simp add: completeAnthropicOAuth_def)
  have conn: "connection ?st' = connection st"
    by (simp add: st1 keyValue_delete_def)
  have gone: "keyValue ?st' ''anthropic-oauth-data'' = None"
    by (simp add: keyValue_delete_def)
  have req: "requests ?st' = requests st"
    by (simp add: st1 keyValue_delete_def)
  have same: "fst (checkAnthropicAuthStatus rt ?st') = fst (checkAnthropicAuthStatus rt st)"
    using conn by (rule status_depends_on_connection)
  show ?thesis
    using run conn gone req same cfg by (intro exI [of _ ?e] exI [of _ ?st']) simp
qed

theorem expired_session_witness:
  "''code123'' \<noteq> []
   \<and> keyValue started_app ''anthropic-oauth-data'' = Some sample_attempt_text
   \<and> JSON_parse_oauthData sample_runtime sample_attempt_text = Some sample_attempt
   \<and> Date_now (sample_env 601001) - timestamp sample_attempt > 600000
   \<and> ensureOAuthConfig started_app (getOAuthConfig (sample_env 601001))
       = Inr (sample_config, started_app)
   \<and> (\<exists>st'. completeAnthropicOAuth sample_runtime (sample_env 601001) ''code123'' started_app
               = (CompleteFailure ''OAuth session expired. Please try again.'', st')
           \<and> keyValue st' ''anthropic-oauth-data'' = None
           \<and> requests st' = requests started_app
           \<and> connection st' = connection started_app
           \<and> fst (checkAnthropicAuthStatus sample_runtime st')
               = fst (checkAnthropicAuthStatus sample_runtime started_app))"
proof -
  have code: "''code123'' \<noteq> []" by simp
  have cfg: "ensureOAuthConfig started_app (getOAuthConfig (sample_env 601001))
      = Inr (sample_config, started_app)"
    by (simp add: ensureOAuthConfig_def started_app_def)
  have stored: "keyValue started_app ''anthropic-oauth-data'' = Some sample_attempt_text"
    by (simp add: started_app_def)
  have ne: "sample_attempt_text \<noteq> []"
    by (simp add: sample_attempt_text_def)
  have parsed: "JSON_parse_oauthData sample_runtime sample_attempt_text = Some sample_attempt"
    by (simp add: sample_runtime_def)
  have late: "Date_now (sample_env 601001) - timestamp sample_attempt > 600000"
    by (simp add: sample_env_def sample_attempt_def)
  from expired_session [OF code stored ne parsed late]
  obtain e st' where
    run: "completeAnthropicOAuth sample_runtime (sample_env 601001) ''code123'' started_app
        = (CompleteFailure e, st')"
    and eff: "keyValue st' ''anthropic-oauth-data'' = None" "requests st' = requests started_app"
      "connection st' = connection started_app"
      "fst (checkAnthropicAuthStatus sample_runtime st')
         = fst (checkAnthropicAuthStatus sample_runtime started_app)"
    and msg: "\<forall>c st1. ensureOAuthConfig started_app (getOAuthConfig (sample_env 601001)) = Inr (c, st1)
                 \<longrightarrow> e = ''OAuth session expired. Please try again.''"
    by blast
  from msg cfg have "e = ''OAuth session expired. Please try again.''" by blast
  with run eff code stored parsed late cfg show ?thesis by blast
qed

text \<open>
  The condition on the configuration is needed. Line 99 loads the configuration before
  the expiry test of line 123: with an expired attempt in the table, an empty module
  cache and a loader that throws, the \<^verbatim>\<open>catch\<close> of lines 195-203 reports the loader's
  message.
\<close>

theorem expired_session_counterexample:
  "''code123'' \<noteq> []
   \<and> keyValue restarted_app ''anthropic-oauth-data'' = Some sample_attempt_text
   \<and> JSON_parse_oauthData sample_runtime sample_attempt_text = Some sample_attempt
   \<and> Date_now (unconfigured_env 601001) - timestamp sample_attempt > 600000
   \<and> fst (completeAnthropicOAuth sample_runtime (unconfigured_env 601001) ''code123'' restarted_app)
       = CompleteFailure ''OAuth configuration not found''
   \<and> fst (completeAnthropicOAuth sample_runtime (unconfigured_env 601001) ''code123'' restarted_app)
       \<noteq> CompleteFailure ''OAuth session expired. Please try again.''"
proof -
  have cfg: "ensureOAuthConfig restarted_app (getOAuthConfig (unconfigured_env 601001))
      = Inl ''OAuth configuration not found''"
    by (simp add: ensureOAuthConfig_def restarted_app_def empty_app_def unconfigured_env_def)
  have code: "''code123'' \<noteq> []" by simp
  have run: "fst (completeAnthropicOAuth sample_runtime (unconfigured_env 601001) ''code123''
      restarted_app) = CompleteFailure ''OAuth configuration not found''"
    using complete_unconfigured [OF code cfg, of sample_runtime] by simp
  have stored: "keyValue restarted_app ''anthropic-oauth-data'' = Some sample_attempt_text"
    by (simp add: restarted_app_def)
  have parsed: "JSON_parse_oauthData sample_runtime sample_attempt_text = Some sample_attempt"
    by (simp add: sample_runtime_def)
  have late: "Date_now (unconfigured_env 601001) - timestamp sample_attempt > 600000"
    by (simp add: unconfigured_env_def sample_env_def sample_attempt_def)
  show ?thesis
    using code stored parsed late run by simp
qed

text \<open>
  C4 (amended). For every code, if no session value is stored, \<open>completeAnthropicOAuth\<close>
  fails, and the credential table, the key-value table and the list of requests are as
  before. The error is the missing-code message for the empty code; for a non-empty code
  it is the session-not-found message whenever the provider configuration resolves, and
  the loader's message (a fixed text when that message is empty) when the loader throws.
\<close>

theorem no_session:
  assumes absent: "keyValue st ''anthropic-oauth-data'' = None"
  shows "\<exists>e st'. completeAnthropicOAuth rt w authCode st = (CompleteFailure e, st')
           \<and> connection st' = connection st
           \<and> keyValue st' = keyValue st
           \<and> requests st' = requests st
           \<and> (authCode = [] \<longrightarrow> e = ''Missing authorization code'')
           \<and> (authCode \<noteq> [] \<longrightarrow>
                (\<forall>c st1. ensureOAuthConfig st (getOAuthConfig w) = Inr (c, st1) \<longrightarrow>
                   e = ''OAuth session not found. Please start the authentication process again.'')
              \<and> (\<forall>m. ensureOAuthConfig st (getOAuthConfig w) = Inl m \<longrightarrow>
                   e = (if m \<noteq> [] then m else ''Failed to complete OAuth flow'')))"
proof (cases "authCode = []")
  case True
  then have "completeAnthropicOAuth rt w authCode st
      = (CompleteFailure ''Missing authorization code'', st)"
    by (simp add: completeAnthropicOAuth_def)
  with True show ?thesis by simp
next
  case False
  show ?thesis
  proof (cases "ensureOAuthConfig st (getOAuthConfig w)")
    case (Inl m)
    let ?e = "if m \<noteq> [] then m else ''Failed to complete OAuth flow''"
    let ?st' = "keyValue_delete ''anthropic-oauth-data''
        (st\<lparr>console := console st @ [(''Error in OAuth callback:'', m)]\<rparr>)"
    have run: "completeAnthropicOAuth rt w authCode st = (CompleteFailure ?e, ?st')"
      using False Inl by (rule complete_unconfigured)
    have "(keyValue st)(''anthropic-oauth-data'' := None) = keyValue st"
      using absent by (simp add: fun_upd_idem)
    then have kv: "keyValue ?st' = keyValue st"
      by (simp add: keyValue_delete_def)
    have rest: "connection ?st' = connection st" "requests ?st' = requests st"
      by (simp_all add: keyValue_delete_def)
    show ?thesis
      using run kv rest False Inl by (intro exI [of _ ?e] exI [of _ ?st']) simp
  next
    case (Inr p)
    then obtain c st1 where cfg: "ensureOAuthConfig st (getOAuthConfig w) = Inr (c, st1)"
      by (cases p) auto
    let ?e = "''OAuth session not found. Please start the authentication process again.''"
    have st1: "st1 = st\<lparr>oauthConfig := Some c\<rparr>"
      using cfg by (rule ensureOAuthConfig_cached)
    then have "keyValue_get st1 ''anthropic-oauth-data'' = None"
      using absent by (simp add: keyValue_get_def)
    then have "complete_try rt w authCode st = (Inr (CompleteFailure ?e), st1)"
      using cfg by (simp add: complete_try_def split: prod.splits)
    then have run: "completeAnthropicOAuth rt w authCode st = (CompleteFailure ?e, st1)"
      using False by (simp add: completeAnthropicOAuth_def)
    show ?thesis
      using run False cfg by (intro exI [of _ ?e] exI [of _ st1]) (simp add: st1)
  qed
qed

theorem no_session_witness:
  "''code123'' \<noteq> []
   \<and> keyValue empty_app ''anthropic-oauth-data'' = None
   \<and> ensureOAuthConfig empty_app (getOAuthConfig (sample_env 1000))
       = Inr (sample_config, empty_app\<lparr>oauthConfig := Some sample_config\<rparr>)
   \<and> (\<exists>st'. completeAnthropicOAuth sample_runtime (sample_env 1000) ''code123'' empty_app
               = (CompleteFailure
                    ''OAuth session not found. Please start the authentication process again.'', st')
           \<and> connection st' = connection empty_app
           \<and> keyValue st' = keyValue empty_app
           \<and> requests st' = requests empty_app)"
proof -
  have code: "''code123'' \<noteq> []" by simp
  have cfg: "ensureOAuthConfig empty_app (getOAuthConfig (sample_env 1000))
      = Inr (sample_config, empty_app\<lparr>oauthConfig := Some sample_config\<rparr>)"
    by (simp add: ensureOAuthConfig_def empty_app_def sample_env_def)
  have absent: "keyValue empty_app ''anthropic-oauth-data'' = None"
    by (simp add: empty_app_def)
  from no_session [OF absent, of sample_runtime "sample_env 1000" "''code123''"]
  obtain e st' where
    run: "completeAnthropicOAuth sample_runtime (sample_env 1000) ''code123'' empty_app
        = (CompleteFailure e, st')"
    and eff: "connection st' = connection empty_app" "keyValue st' = keyValue empty_app"
      "requests st' = requests empty_app"
    and msg: "''code123'' \<noteq> [] \<longrightarrow>
        (\<forall>c st1. ensureOAuthConfig empty_app (getOAuthConfig (sample_env 1000)) = Inr (c, st1) \<longrightarrow>
           e = ''OAuth session not found. Please start the authentication process again.'')
        \<and> (\<forall>m. ensureOAuthConfig empty_app (getOAuthConfig (sample_env 1000)) = Inl m \<longrightarrow>
           e = (if m \<noteq> [] then m else ''Failed to complete OAuth flow''))"
    by blast
  from msg code cfg
  have "e = ''OAuth session not found. Please start the authentication process again.''"
    by blast
  with run eff code absent cfg show ?thesis by blast
qed

text \<open>
  Both conditions are needed. The guard of lines 91-96 answers the empty code before the
  session is looked up, with a message of its own; and line 99 loads the configuration
  before the lookup of line 104, so a loader that throws is reported instead.
\<close>

theorem no_session_counterexample:
  "keyValue empty_app ''anthropic-oauth-data'' = None
   \<and> completeAnthropicOAuth sample_runtime (sample_env 1000) [] empty_app
       = (CompleteFailure ''Missing authorization code'', empty_app)
   \<and> fst (completeAnthropicOAuth sample_runtime (sample_env 1000) [] empty_app)
       \<noteq> CompleteFailure ''OAuth session not found. Please start the authentication process again.''
   \<and> fst (completeAnthropicOAuth sample_runtime (unconfigured_env 1000) ''code123'' empty_app)
       = CompleteFailure ''OAuth configuration not found''
   \<and> fst (completeAnthropicOAuth sample_runtime (unconfigured_env 1000) ''code123'' empty_app)
       \<noteq> CompleteFailure ''OAuth session not found. Please start the authentication process again.''"
proof -
  have cfg: "ensureOAuthConfig empty_app (getOAuthConfig (unconfigured_env 1000))
      = Inl ''OAuth configuration not found''"
    by (simp add: ensureOAuthConfig_def empty_app_def unconfigured_env_def)
  have code: "''code123'' \<noteq> []" by simp
  have run: "fst (completeAnthropicOAuth sample_runtime (unconfigured_env 1000) ''code123''
      empty_app) = CompleteFailure ''OAuth configuration not found''"
    using complete_unconfigured [OF code cfg, of sample_runtime] by simp
  have guard: "completeAnthropicOAuth sample_runtime (sample_env 1000) [] empty_app
       = (CompleteFailure ''Missing authorization code'', empty_app)"
    by (simp add: completeAnthropicOAuth_def)
  have absent: "keyValue empty_app ''anthropic-oauth-data'' = None"
    by (simp add: empty_app_def)
  show ?thesis
    using absent guard run by simp
qed

lemma complete_catch_effects:
  "complete_catch m st = (r, st') \<Longrightarrow>
     keyValue st' ''anthropic-oauth-data'' = None \<and> requests st' = requests st
     \<and> connection st' = connection st \<and> (\<exists>e. r = CompleteFailure e)"
  by (auto simp: complete_catch_def keyValue_delete_def)

lemma create_api_key_effects:
  assumes "create_api_key rt w c tokenData st = (x, st')"
  shows "(\<exists>rest. requests st' = requests st @ rest)
       \<and> (case x of Inl m \<Rightarrow> True | Inr r \<Rightarrow> keyValue st' ''anthropic-oauth-data'' = None)"
  using assms
  by (auto simp: create_api_key_def Let_def keyValue_delete_def connection_upsert_def
      split: sum.splits if_splits)

lemma exchange_code_effects:
  assumes "exchange_code rt w c code rs od st = (x, st')"
  shows "(\<exists>rest. requests st' = requests st @ token_request rt c code rs od # rest)
       \<and> (case x of Inl m \<Rightarrow> True | Inr r \<Rightarrow> keyValue st' ''anthropic-oauth-data'' = None)"
proof -
  let ?st1 = "st\<lparr>requests := requests st @ [token_request rt c code rs od]\<rparr>"
  consider (thrown) "st' = ?st1" "\<exists>m. x = Inl m"
    | (issued) tokenData where "create_api_key rt w c tokenData ?st1 = (x, st')"
    using assms by (auto simp: exchange_code_def Let_def split: sum.splits if_splits)
  then show ?thesis
  proof cases
    case thrown
    then show ?thesis by auto
  next
    case issued
    from create_api_key_effects [OF issued] show ?thesis by auto
  qed
qed

lemma complete_try_stored:
  assumes stored: "keyValue st ''anthropic-oauth-data'' = Some v" "v \<noteq> []"
    and parsed: "JSON_parse_oauthData rt v = Some od"
    and run: "complete_try rt w authCode st = (x, st')"
  shows "case x of Inl m \<Rightarrow> True | Inr r \<Rightarrow> keyValue st' ''anthropic-oauth-data'' = None"
proof (cases "ensureOAuthConfig st (getOAuthConfig w)")
  case (Inl e)
  then show ?thesis using run by (auto simp: complete_try_def)
next
  case (Inr p)
  then obtain c st1 where cfg: "ensureOAuthConfig st (getOAuthConfig w) = Inr (c, st1)"
    by (cases p) auto
  show ?thesis
  proof (cases "Date_now w - timestamp od > 600000")
    case True
    with complete_try_expired [OF cfg stored parsed] run show ?thesis
      by (auto simp: keyValue_delete_def)
  next
    case False
    then have "Date_now w - timestamp od \<le> 600000" by simp
    from complete_try_reaches_exchange [OF cfg stored parsed this] run
    have "exchange_code rt w c (fst (parse_authCode authCode)) (snd (parse_authCode authCode)) od st1
        = (x, st')" by simp
    from exchange_code_effects [OF this] show ?thesis by simp
  qed
qed

text \<open>
  C2 (amended). For every non-empty code, if the stored session value is a non-empty
  text that parses to an attempt, the state \<open>completeAnthropicOAuth\<close> returns holds no
  session value, whatever the configuration loader, the clock and the two endpoints
  answer, and whether the call succeeds or fails.
\<close>

theorem cleanup_after_complete:
  assumes code: "authCode \<noteq> []"
    and stored: "keyValue st ''anthropic-oauth-data'' = Some v" "v \<noteq> []"
    and parsed: "JSON_parse_oauthData rt v = Some od"
  shows "keyValue (snd (completeAnthropicOAuth rt w authCode st)) ''anthropic-oauth-data'' = None"
proof -
  obtain x st' where run: "complete_try rt w authCode st = (x, st')"
    by (cases "complete_try rt w authCode st") auto
  show ?thesis
  proof (cases x)
    case (Inl m)
    obtain r st'' where c: "complete_catch m st' = (r, st'')"
      by (cases "complete_catch m st'") auto
    from complete_catch_effects [OF c] have "keyValue st'' ''anthropic-oauth-data'' = None"
      by simp
    then show ?thesis
      using code run Inl c by (simp add: completeAnthropicOAuth_def)
  next
    case (Inr r)
    from complete_try_stored [OF stored parsed run] Inr
    have "keyValue st' ''anthropic-oauth-data'' = None" by simp
    then show ?thesis
      using code run Inr by (simp add: completeAnthropicOAuth_def)
  qed
qed

theorem cleanup_after_complete_witness:
  "''code123'' \<noteq> []
   \<and> keyValue started_app ''anthropic-oauth-data'' = Some sample_attempt_text
   \<and> sample_attempt_text \<noteq> []
   \<and> JSON_parse_oauthData sample_runtime sample_attempt_text = Some sample_attempt
   \<and> fst (completeAnthropicOAuth sample_runtime
            ((sample_env 2000)\<lparr>fetch_token := \<lambda>req. Inl ''connect ECONNREFUSED''\<rparr>)
            ''code123'' started_app)
       = CompleteFailure ''connect ECONNREFUSED''
   \<and> keyValue (snd (completeAnthropicOAuth sample_runtime
            ((sample_env 2000)\<lparr>fetch_token := \<lambda>req. Inl ''connect ECONNREFUSED''\<rparr>)
            ''code123'' started_app)) ''anthropic-oauth-data'' = None"
proof -
  let ?w = "(sample_env 2000)\<lparr>fetch_token := \<lambda>req. Inl ''connect ECONNREFUSED''\<rparr>"
  have code: "''code123'' \<noteq> []" by simp
  have stored: "keyValue started_app ''anthropic-oauth-data'' = Some sample_attempt_text"
    by (simp add: started_app_def)
  have ne: "sample_attempt_text \<noteq> []"
    by (simp add: sample_attempt_text_def)
  have parsed: "JSON_parse_oauthData sample_runtime sample_attempt_text = Some sample_attempt"
    by (simp add: sample_runtime_def)
  have cfg: "ensureOAuthConfig started_app (getOAuthConfig ?w) = Inr (sample_config, started_app)"
    by (simp add: ensureOAuthConfig_def started_app_def)
  have fresh: "Date_now ?w - timestamp sample_attempt \<le> 600000"
    by (simp add: sample_env_def sample_attempt_def)
  have "complete_try sample_runtime ?w ''code123'' started_app
      = exchange_code sample_runtime ?w sample_config (fst (parse_authCode ''code123''))
          (snd (parse_authCode ''code123'')) sample_attempt started_app"
    using cfg stored ne parsed fresh by (rule complete_try_reaches_exchange)
  then have "fst (complete_try sample_runtime ?w ''code123'' started_app) = Inl ''connect ECONNREFUSED''"
    by (simp add: exchange_code_def Let_def)
  then have fails: "fst (completeAnthropicOAuth sample_runtime ?w ''code123'' started_app)
      = CompleteFailure ''connect ECONNREFUSED''"
    by (cases "complete_try sample_runtime ?w ''code123'' started_app")
      (simp add: completeAnthropicOAuth_def complete_catch_def)
  show ?thesis
    using cleanup_after_complete [OF code stored ne parsed, of ?w] code stored ne parsed fails
    by blast
qed

text \<open>
  The restriction to a non-empty code is needed here too: the guard of lines 91-96
  returns a failure before the \<^verbatim>\<open>try\<close> block, and the attempt stays stored.
\<close>

theorem cleanup_counterexample:
  "keyValue started_app ''anthropic-oauth-data'' = Some sample_attempt_text
   \<and> JSON_parse_oauthData sample_runtime sample_attempt_text = Some sample_attempt
   \<and> completeAnthropicOAuth sample_runtime (sample_env 2000) [] started_app
       = (CompleteFailure ''Missing authorization code'', started_app)
   \<and> keyValue (snd (completeAnthropicOAuth sample_runtime (sample_env 2000) [] started_app))
        ''anthropic-oauth-data'' \<noteq> None"
  by (simp add: completeAnthropicOAuth_def started_app_def sample_runtime_def)

subsection \<open>The composite code\<close>

lemma split_takeWhile:
  "split sep s = takeWhile (\<lambda>c. c \<noteq> sep) s
     # (if sep \<in> set s then split sep (tl (dropWhile (\<lambda>c. c \<noteq> sep) s)) else [])"
  by (induction s) auto

lemma parse_authCode_composite:
  assumes "CHR ''#'' \<in> set authCode"
  shows "parse_authCode authCode =
     (takeWhile (\<lambda>c. c \<noteq> CHR ''#'') authCode,
      Some (takeWhile (\<lambda>c. c \<noteq> CHR ''#'') (tl (dropWhile (\<lambda>c. c \<noteq> CHR ''#'') authCode))))"
proof -
  let ?rest = "tl (dropWhile (\<lambda>c. c \<noteq> CHR ''#'') authCode)"
  have "split CHR ''#'' authCode = takeWhile (\<lambda>c. c \<noteq> CHR ''#'') authCode # split CHR ''#'' ?rest"
    using assms split_takeWhile [of "CHR ''#''" authCode] by simp
  moreover obtain ws where "split CHR ''#'' ?rest = takeWhile (\<lambda>c. c \<noteq> CHR ''#'') ?rest # ws"
    using split_takeWhile [of "CHR ''#''" ?rest] by blast
  ultimately show ?thesis
    using assms by (simp add: parse_authCode_def)
qed

lemma complete_requests:
  assumes code: "authCode \<noteq> []"
    and run: "complete_try rt w authCode st = exchange_code rt w c code' rs od st1"
    and st1: "requests st1 = requests st"
  shows "\<exists>rest. requests (snd (completeAnthropicOAuth rt w authCode st))
           = requests st @ token_request rt c code' rs od # rest"
proof -
  obtain x st' where ex: "exchange_code rt w c code' rs od st1 = (x, st')"
    by (cases "exchange_code rt w c code' rs od st1") auto
  from exchange_code_effects [OF ex] st1
  obtain rest where req: "requests st' = requests st @ token_request rt c code' rs od # rest"
    by auto
  show ?thesis
  proof (cases x)
    case (Inl m)
    then have "requests (snd (completeAnthropicOAuth rt w authCode st)) = requests st'"
      using code run ex
      by (simp add: completeAnthropicOAuth_def complete_catch_def keyValue_delete_def)
    then show ?thesis using req by simp
  next
    case (Inr r)
    then have "requests (snd (completeAnthropicOAuth rt w authCode st)) = requests st'"
      using code run ex by (simp add: completeAnthropicOAuth_def)
    then show ?thesis using req by simp
  qed
qed

text \<open>
  C5 (amended). For every code that contains \<^verbatim>\<open>#\<close>, the authorisation code is the part
  before the first \<^verbatim>\<open>#\<close> and the asserted state is the part between the first \<^verbatim>\<open>#\<close> and
  the second one (up to the end when there is no second one). When the configuration
  resolves and a stored attempt parses and is not expired, the first request that
  \<open>completeAnthropicOAuth\<close> sends is the token exchange, and the \<^verbatim>\<open>state\<close> field of its
  body is the asserted state when that is non-empty and the stored attempt's state
  otherwise. The instance is \<^verbatim>\<open>ABC#XYZ\<close>: code \<^verbatim>\<open>ABC\<close>, state \<^verbatim>\<open>XYZ\<close>.
\<close>

theorem composite_code:
  assumes hash: "CHR ''#'' \<in> set authCode"
    and before: "code = takeWhile (\<lambda>c. c \<noteq> CHR ''#'') authCode"
    and between: "asserted = takeWhile (\<lambda>c. c \<noteq> CHR ''#'')
                               (tl (dropWhile (\<lambda>c. c \<noteq> CHR ''#'') authCode))"
    and cfg: "ensureOAuthConfig st (getOAuthConfig w) = Inr (c, st1)"
    and stored: "keyValue st ''anthropic-oauth-data'' = Some v" "v \<noteq> []"
    and parsed: "JSON_parse_oauthData rt v = Some od"
    and fresh: "Date_now w - timestamp od \<le> 600000"
  shows "parse_authCode authCode = (code, Some asserted)
       \<and> (\<exists>rest. requests (snd (completeAnthropicOAuth rt w authCode st))
             = requests st
               @ \<lparr>url = tokenUrl c, http_method = ''POST'',
                  headers = [(''Content-Type'', ''application/json'')],
                  body = JSON_stringify rt
                    (JObj [(''grant_type'', JStr ''authorization_code''),
                           (''code'', JStr code),
                           (''redirect_uri'', JStr (redirectUri c)),
                           (''client_id'', JStr (clientId c)),
                           (''code_verifier'', JStr (oauthData.verifier od)),
                           (''state'', JStr (if asserted \<noteq> [] then asserted else state od))])\<rparr>
               # rest)"
proof -
  have parse: "parse_authCode authCode = (code, Some asserted)"
    using parse_authCode_composite [OF hash] before between by simp
  have ne: "authCode \<noteq> []" using hash by auto
  have st1: "requests st1 = requests st"
    using ensureOAuthConfig_cached(1) [OF cfg] by simp
  have "complete_try rt w authCode st = exchange_code rt w c code (Some asserted) od st1"
    using complete_try_reaches_exchange [OF cfg stored parsed fresh, of authCode] parse by simp
  from complete_requests [OF ne this st1]
  obtain rest where "requests (snd (completeAnthropicOAuth rt w authCode st))
      = requests st @ token_request rt c code (Some asserted) od # rest" by blast
  then show ?thesis
    using parse by (auto simp: token_request_def tokenPayload_def sent_state_def)
qed

theorem composite_code_witness:
  "CHR ''#'' \<in> set ''ABC#XYZ''
   \<and> parse_authCode ''ABC#XYZ'' = (''ABC'', Some ''XYZ'')
   \<and> (\<exists>rest. requests (snd (completeAnthropicOAuth sample_runtime (sample_env 2000) ''ABC#XYZ''
                             started_app))
         = requests started_app
           @ \<lparr>url = tokenUrl sample_config, http_method = ''POST'',
              headers = [(''Content-Type'', ''application/json'')],
              body = JSON_stringify sample_runtime
                (JObj [(''grant_type'', JStr ''authorization_code''),
                       (''code'', JStr ''ABC''),
                       (''redirect_uri'', JStr (redirectUri sample_config)),
                       (''client_id'', JStr (clientId sample_config)),
                       (''code_verifier'', JStr (oauthData.verifier sample_attempt)),
                       (''state'', JStr ''XYZ'')])\<rparr>
           # rest)"
proof -
  have hash: "CHR ''#'' \<in> set ''ABC#XYZ''" by simp
  have before: "''ABC'' = takeWhile (\<lambda>c. c \<noteq> CHR ''#'') ''ABC#XYZ''" by simp
  have between: "''XYZ'' = takeWhile (\<lambda>c. c \<noteq> CHR ''#'')
                               (tl (dropWhile (\<lambda>c. c \<noteq> CHR ''#'') ''ABC#XYZ''))" by simp
  have cfg: "ensureOAuthConfig started_app (getOAuthConfig (sample_env 2000))
      = Inr (sample_config, started_app)"
    by (simp add: ensureOAuthConfig_def started_app_def)
  have stored: "keyValue started_app ''anthropic-oauth-data'' = Some sample_attempt_text"
    by (simp add: started_app_def)
  have ne: "sample_attempt_text \<noteq> []"
    by (simp add: sample_attempt_text_def)
  have parsed: "JSON_parse_oauthData sample_runtime sample_attempt_text = Some sample_attempt"
    by (simp add: sample_runtime_def)
  have fresh: "Date_now (sample_env 2000) - timestamp sample_attempt \<le> 600000"
    by (simp add: sample_env_def sample_attempt_def)
  show ?thesis
    using composite_code [OF hash before between cfg stored ne parsed fresh] hash by simp
qed

text \<open>
  Line 101 splits at every \<^verbatim>\<open>#\<close> and keeps the first two pieces, so what follows a second
  \<^verbatim>\<open>#\<close> is dropped: for \<^verbatim>\<open>A#B#C\<close> the remainder after the first \<^verbatim>\<open>#\<close> is \<^verbatim>\<open>B#C\<close>, and
  the state that is sent is \<^verbatim>\<open>B\<close>.
\<close>

theorem composite_code_counterexample:
  "CHR ''#'' \<in> set ''A#B#C''
   \<and> tl (dropWhile (\<lambda>c. c \<noteq> CHR ''#'') ''A#B#C'') = ''B#C''
   \<and> parse_authCode ''A#B#C'' = (''A'', Some ''B'')
   \<and> snd (parse_authCode ''A#B#C'') \<noteq> Some (tl (dropWhile (\<lambda>c. c \<noteq> CHR ''#'') ''A#B#C''))
   \<and> tokenPayload sample_config (fst (parse_authCode ''A#B#C''))
        (snd (parse_authCode ''A#B#C'')) sample_attempt
       = JObj [(''grant_type'', JStr ''authorization_code''),
               (''code'', JStr ''A''),
               (''redirect_uri'', JStr (redirectUri sample_config)),
               (''client_id'', JStr (clientId sample_config)),
               (''code_verifier'', JStr (oauthData.verifier sample_attempt)),
               (''state'', JStr ''B'')]
   \<and> requests (snd (completeAnthropicOAuth sample_runtime (sample_env 2000) ''A#B#C'' started_app))
       = [token_request sample_runtime sample_config ''A'' (Some ''B'') sample_attempt,
          apiKey_request sample_runtime sample_config sample_token]"
proof -
  have parse: "parse_authCode ''A#B#C'' = (''A'', Some ''B'')"
    by (simp add: parse_authCode_def)
  have cfg: "ensureOAuthConfig started_app (getOAuthConfig (sample_env 2000))
      = Inr (sample_config, started_app)"
    by (simp add: ensureOAuthConfig_def started_app_def)
  have stored: "keyValue started_app ''anthropic-oauth-data'' = Some sample_attempt_text"
    by (simp add: started_app_def)
  have ne: "sample_attempt_text \<noteq> []"
    by (simp add: sample_attempt_text_def)
  have parsed: "JSON_parse_oauthData sample_runtime sample_attempt_text = Some sample_attempt"
    by (simp add: sample_runtime_def)
  have fresh: "Date_now (sample_env 2000) - timestamp sample_attempt \<le> 600000"
    by (simp add: sample_env_def sample_attempt_def)
  have tok: "fetch_token (sample_env 2000)
      (token_request sample_runtime sample_config ''A'' (Some ''B'') sample_attempt)
      = Inr \<lparr>ok = True, text_body = Inr [], json_body = Inr sample_token\<rparr>"
    by (simp add: sample_env_def)
  have key: "fetch_apiKey (sample_env 2000) (apiKey_request sample_runtime sample_config sample_token)
      = Inr \<lparr>ok = True, text_body = Inr [], json_body = Inr sample_key\<rparr>"
    by (simp add: sample_env_def)
  have "complete_try sample_runtime (sample_env 2000) ''A#B#C'' started_app
      = exchange_code sample_runtime (sample_env 2000) sample_config ''A'' (Some ''B'')
          sample_attempt started_app"
    using complete_try_reaches_exchange [OF cfg stored ne parsed fresh, of "''A#B#C''"] parse
    by simp
  then have "requests (snd (complete_try sample_runtime (sample_env 2000) ''A#B#C'' started_app))
      = [token_request sample_runtime sample_config ''A'' (Some ''B'') sample_attempt,
         apiKey_request sample_runtime sample_config sample_token]"
    by (simp add: exchange_code_success [OF tok] create_api_key_success [OF key]
        keyValue_delete_def connection_upsert_def started_app_def empty_app_def)
  moreover have "\<exists>r. fst (complete_try sample_runtime (sample_env 2000) ''A#B#C'' started_app) = Inr r"
    using \<open>complete_try sample_runtime (sample_env 2000) ''A#B#C'' started_app = _\<close>
    by (simp add: exchange_code_success [OF tok] create_api_key_success [OF key])
  ultimately have run: "requests (snd (completeAnthropicOAuth sample_runtime (sample_env 2000)
      ''A#B#C'' started_app))
      = [token_request sample_runtime sample_config ''A'' (Some ''B'') sample_attempt,
         apiKey_request sample_runtime sample_config sample_token]"
    by (cases "complete_try sample_runtime (sample_env 2000) ''A#B#C'' started_app")
      (auto simp: completeAnthropicOAuth_def)
  show ?thesis
    using run parse by (simp add: tokenPayload_def sent_state_def)
qed

subsection \<open>The authorisation URL\<close>

lemma getAll_set_same: "searchParams_getAll n (searchParams_set n v ps) = [v]"
proof (induction ps)
  case Nil
  then show ?case by (simp add: searchParams_getAll_def)
next
  case (Cons p ps)
  have "filter (\<lambda>q. fst q = n) (filter (\<lambda>q. fst q \<noteq> n) ps) = []"
    by (induction ps) auto
  with Cons show ?case
    by (cases p) (simp add: searchParams_getAll_def)
qed

lemma getAll_set_other:
  "m \<noteq> n \<Longrightarrow> searchParams_getAll m (searchParams_set n v ps) = searchParams_getAll m ps"
proof (induction ps)
  case Nil
  then show ?case by (simp add: searchParams_getAll_def)
next
  case (Cons p ps)
  have "filter (\<lambda>q. fst q = m) (filter (\<lambda>q. fst q \<noteq> n) ps) = filter (\<lambda>q. fst q = m) ps"
    using Cons.prems by (induction ps) auto
  with Cons show ?case
    by (cases p) (auto simp: searchParams_getAll_def)
qed

lemma hexdigit_unreserved: "hexdigit n \<in> set form_unreserved"
proof -
  have "n mod 16 < length ''0123456789ABCDEF''" by simp
  then have "hexdigit n \<in> set ''0123456789ABCDEF''"
    unfolding hexdigit_def by (rule nth_mem)
  then show ?thesis by (auto simp: form_unreserved_def)
qed

lemma form_encode_chars:
  "set (form_encode s) \<subseteq> set form_unreserved \<union> {CHR ''+'', CHR ''%''}"
proof (induction s)
  case Nil
  then show ?case by (simp add: form_encode_def)
next
  case (Cons c s)
  have "set (form_encode_char c) \<subseteq> set form_unreserved \<union> {CHR ''+'', CHR ''%''}"
    using hexdigit_unreserved by (simp add: form_encode_char_def)
  with Cons show ?case by (simp add: form_encode_def)
qed

lemma urlencoded_chars:
  "set (urlencoded ps) \<subseteq> set form_unreserved \<union> {CHR ''+'', CHR ''%'', CHR ''='', CHR ''&''}"
proof (induction ps rule: urlencoded.induct)
  case 1
  then show ?case by simp
next
  case (2 n v)
  show ?case using form_encode_chars [of n] form_encode_chars [of v] by auto
next
  case (3 n v p ps)
  then show ?case using form_encode_chars [of n] form_encode_chars [of v] by auto
qed

lemma build_authUrl_params:
  fixes c p s u
  defines "ps \<equiv> searchParams (build_authUrl c p s u)"
  shows "searchParams_getAll ''code_challenge'' ps = [PKCE.challenge p]"
    and "searchParams_getAll ''code_challenge_method'' ps = [''S256'']"
    and "searchParams_getAll ''state'' ps = [s]"
    and "searchParams_getAll ''redirect_uri'' ps = [redirectUri c]"
    and "searchParams_getAll ''scope'' ps = [join '' '' (scopes c)]"
    and "searchParams_getAll ''response_type'' ps = [''code'']"
    and "searchParams_getAll ''client_id'' ps = [clientId c]"
    and "searchParams_getAll ''code'' ps = [''true'']"
  unfolding ps_def build_authUrl_def
  by (simp_all add: getAll_set_same getAll_set_other)

lemma build_authUrl_others:
  assumes "n \<notin> set [''code_challenge'', ''code_challenge_method'', ''state'', ''redirect_uri'',
                      ''scope'', ''response_type'', ''client_id'', ''code'']"
  shows "searchParams_getAll n (searchParams (build_authUrl c p s u))
       = searchParams_getAll n (searchParams u)"
  using assms unfolding build_authUrl_def
  by (simp add: getAll_set_other)

lemma build_authUrl_fresh:
  assumes "searchParams u = []"
  shows "searchParams (build_authUrl c p s u) =
     [(''code'', ''true''), (''client_id'', clientId c), (''response_type'', ''code''),
      (''redirect_uri'', redirectUri c), (''scope'', join '' '' (scopes c)), (''state'', s),
      (''code_challenge'', PKCE.challenge p), (''code_challenge_method'', ''S256'')]"
  using assms unfolding build_authUrl_def by simp

lemma urlencoded_nonempty: "ps \<noteq> [] \<Longrightarrow> urlencoded ps \<noteq> []"
  by (induction ps rule: urlencoded.induct) simp_all

lemma sample_challenge:
  "base64url (sha256 sample_runtime (oauthData.verifier sample_attempt))
     = ''AAAAAAAAAAAAAAAAAAAAAAAAAAAAAAAAAAAAAAAAAAA''"
  by code_simp

text \<open>
  C6 (amended). When \<open>startAnthropicOAuth\<close> succeeds, the URL it returns is the configured
  authorisation URL with its query replaced by the serialisation of a parameter list in
  which each of \<^verbatim>\<open>code_challenge\<close>, \<^verbatim>\<open>code_challenge_method\<close> (\<^verbatim>\<open>S256\<close>), \<^verbatim>\<open>state\<close>,
  \<^verbatim>\<open>redirect_uri\<close>, \<^verbatim>\<open>scope\<close> (the configured scopes joined by spaces),
  \<^verbatim>\<open>response_type\<close> (\<^verbatim>\<open>code\<close>) and \<^verbatim>\<open>client_id\<close> occurs exactly once with the value
  named, and which carries one parameter more, \<^verbatim>\<open>code\<close> with the value \<^verbatim>\<open>true\<close>. Every
  other parameter is one the configured URL already had; when it had none, the list is
  exactly these eight. The serialised query consists of unreserved characters, \<^verbatim>\<open>+\<close>,
  percent escapes and the separators \<^verbatim>\<open>=\<close> and \<^verbatim>\<open>&\<close>.
\<close>

theorem authorization_url_parameters:
  assumes cfg: "ensureOAuthConfig st (getOAuthConfig w) = Inr (c, st0)"
    and url: "URL_parse rt (authorizeUrl c) = Some u"
    and ent: "64 \<le> length (entropy w)"
    and v: "v = base64url (take 32 (entropy w))"
    and s: "s = base64url (take 32 (drop 32 (entropy w)))"
  shows "\<exists>ps st'.
           startAnthropicOAuth rt w st =
             (StartSuccess
                (href_base u @ CHR ''?'' # urlencoded ps
                 @ (case fragment u of None \<Rightarrow> [] | Some f \<Rightarrow> CHR ''#'' # f)) v s, st')
         \<and> searchParams_getAll ''code_challenge'' ps = [base64url (sha256 rt v)]
         \<and> searchParams_getAll ''code_challenge_method'' ps = [''S256'']
         \<and> searchParams_getAll ''state'' ps = [s]
         \<and> searchParams_getAll ''redirect_uri'' ps = [redirectUri c]
         \<and> searchParams_getAll ''scope'' ps = [join '' '' (scopes c)]
         \<and> searchParams_getAll ''response_type'' ps = [''code'']
         \<and> searchParams_getAll ''client_id'' ps = [clientId c]
         \<and> searchParams_getAll ''code'' ps = [''true'']
         \<and> (\<forall>n. n \<notin> set [''code_challenge'', ''code_challenge_method'', ''state'',
                             ''redirect_uri'', ''scope'', ''response_type'', ''client_id'', ''code'']
                \<longrightarrow> searchParams_getAll n ps = searchParams_getAll n (searchParams u))
         \<and> (searchParams u = [] \<longrightarrow>
                ps = [(''code'', ''true''), (''client_id'', clientId c),
                      (''response_type'', ''code''), (''redirect_uri'', redirectUri c),
                      (''scope'', join '' '' (scopes c)), (''state'', s),
                      (''code_challenge'', base64url (sha256 rt v)),
                      (''code_challenge_method'', ''S256'')])
         \<and> set (urlencoded ps)
             \<subseteq> set form_unreserved \<union> {CHR ''+'', CHR ''%'', CHR ''='', CHR ''&''}"
proof -
  let ?p = "\<lparr>PKCE.verifier = v, challenge = base64url (sha256 rt v)\<rparr>"
  let ?U = "build_authUrl c ?p s u"
  let ?ps = "searchParams ?U"
  have "(''code_challenge_method'', ''S256'') \<in> set ?ps"
    unfolding build_authUrl_def by (simp add: searchParams_set_mem)
  then have "?ps \<noteq> []" by auto
  then have ne: "urlencoded ?ps \<noteq> []" by (rule urlencoded_nonempty)
  have same: "href_base ?U = href_base u" "fragment ?U = fragment u"
    by (simp_all add: build_authUrl_def)
  have str: "URL_toString ?U = href_base u @ CHR ''?'' # urlencoded ?ps
      @ (case fragment u of None \<Rightarrow> [] | Some f \<Rightarrow> CHR ''#'' # f)"
    unfolding URL_toString_def using ne same by simp
  have run: "\<exists>st'. startAnthropicOAuth rt w st =
      (StartSuccess (href_base u @ CHR ''?'' # urlencoded ?ps
                 @ (case fragment u of None \<Rightarrow> [] | Some f \<Rightarrow> CHR ''#'' # f)) v s, st')"
    using startAnthropicOAuth_success [OF cfg url ent] str unfolding v s by simp
  have others: "\<forall>n. n \<notin> set [''code_challenge'', ''code_challenge_method'', ''state'',
                             ''redirect_uri'', ''scope'', ''response_type'', ''client_id'', ''code'']
                \<longrightarrow> searchParams_getAll n ?ps = searchParams_getAll n (searchParams u)"
    using build_authUrl_others by blast
  have fresh: "searchParams u = [] \<longrightarrow>
                ?ps = [(''code'', ''true''), (''client_id'', clientId c),
                      (''response_type'', ''code''), (''redirect_uri'', redirectUri c),
                      (''scope'', join '' '' (scopes c)), (''state'', s),
                      (''code_challenge'', base64url (sha256 rt v)),
                      (''code_challenge_method'', ''S256'')]"
    using build_authUrl_fresh [where u = u and c = c and p = ?p and s = s] by simp
  from run obtain st' where run': "startAnthropicOAuth rt w st =
      (StartSuccess (href_base u @ CHR ''?'' # urlencoded ?ps
                 @ (case fragment u of None \<Rightarrow> [] | Some f \<Rightarrow> CHR ''#'' # f)) v s, st')"
    by blast
  show ?thesis
    apply (rule exI [of _ ?ps])
    apply (rule exI [of _ st'])
    apply (intro conjI)
    apply (rule run')
    apply (simp add: build_authUrl_params(1))
    apply (simp add: build_authUrl_params(2))
    apply (simp add: build_authUrl_params(3))
    apply (simp add: build_authUrl_params(4))
    apply (simp add: build_authUrl_params(5))
    apply (simp add: build_authUrl_params(6))
    apply (simp add: build_authUrl_params(7))
    apply (simp add: build_authUrl_params(8))
    apply (rule others)
    apply (rule fresh)
    apply (rule urlencoded_chars)
    done
qed

theorem authorization_url_parameters_witness:
  "searchParams sample_url = []
   \<and> ''utm_source'' \<notin> set [''code_challenge'', ''code_challenge_method'', ''state'',
                              ''redirect_uri'', ''scope'', ''response_type'', ''client_id'', ''code'']
   \<and> (\<exists>ps st'.
         startAnthropicOAuth sample_runtime (sample_env 1000) empty_app =
           (StartSuccess (href_base sample_url @ CHR ''?'' # urlencoded ps)
              (oauthData.verifier sample_attempt) (state sample_attempt), st')
       \<and> ps = [(''code'', ''true''), (''client_id'', ''client-1''),
               (''response_type'', ''code''),
               (''redirect_uri'', ''https://app.example/callback''),
               (''scope'', ''org:create_api_key user:profile''),
               (''state'', ''__________________________________________8''),
               (''code_challenge'', ''AAAAAAAAAAAAAAAAAAAAAAAAAAAAAAAAAAAAAAAAAAA''),
               (''code_challenge_method'', ''S256'')]
       \<and> searchParams_getAll ''utm_source'' ps = [])"
proof -
  have cfg: "ensureOAuthConfig empty_app (getOAuthConfig (sample_env 1000))
      = Inr (sample_config, empty_app\<lparr>oauthConfig := Some sample_config\<rparr>)"
    by (simp add: ensureOAuthConfig_def empty_app_def sample_env_def)
  have url: "URL_parse sample_runtime (authorizeUrl sample_config) = Some sample_url"
    by (simp add: sample_runtime_def)
  have ent: "64 \<le> length (entropy (sample_env 1000))"
    by (simp add: sample_env_def sample_entropy_def)
  have v: "oauthData.verifier sample_attempt = base64url (take 32 (entropy (sample_env 1000)))"
    using sample_verifier by (simp add: sample_env_def)
  have s: "state sample_attempt = base64url (take 32 (drop 32 (entropy (sample_env 1000))))"
    using sample_state by (simp add: sample_env_def)
  have fresh: "searchParams sample_url = []"
    by (simp add: sample_url_def)
  have other: "''utm_source'' \<notin> set [''code_challenge'', ''code_challenge_method'', ''state'',
      ''redirect_uri'', ''scope'', ''response_type'', ''client_id'', ''code'']"
    by simp
  have frag: "fragment sample_url = None"
    by (simp add: sample_url_def)
  from authorization_url_parameters [OF cfg url ent v s]
  obtain ps st' where
    run: "startAnthropicOAuth sample_runtime (sample_env 1000) empty_app =
           (StartSuccess
              (href_base sample_url @ CHR ''?'' # urlencoded ps
               @ (case fragment sample_url of None \<Rightarrow> [] | Some f \<Rightarrow> CHR ''#'' # f))
              (oauthData.verifier sample_attempt) (state sample_attempt), st')"
    and others: "\<forall>n. n \<notin> set [''code_challenge'', ''code_challenge_method'', ''state'',
                             ''redirect_uri'', ''scope'', ''response_type'', ''client_id'', ''code'']
                \<longrightarrow> searchParams_getAll n ps = searchParams_getAll n (searchParams sample_url)"
    and list: "searchParams sample_url = [] \<longrightarrow>
                ps = [(''code'', ''true''), (''client_id'', clientId sample_config),
                      (''response_type'', ''code''), (''redirect_uri'', redirectUri sample_config),
                      (''scope'', join '' '' (scopes sample_config)), (''state'', state sample_attempt),
                      (''code_challenge'',
                       base64url (sha256 sample_runtime (oauthData.verifier sample_attempt))),
                      (''code_challenge_method'', ''S256'')]"
    by blast
  have ps: "ps = [(''code'', ''true''), (''client_id'', ''client-1''),
               (''response_type'', ''code''),
               (''redirect_uri'', ''https://app.example/callback''),
               (''scope'', ''org:create_api_key user:profile''),
               (''state'', ''__________________________________________8''),
               (''code_challenge'', ''AAAAAAAAAAAAAAAAAAAAAAAAAAAAAAAAAAAAAAAAAAA''),
               (''code_challenge_method'', ''S256'')]"
    using list fresh sample_challenge by (simp add: sample_config_def sample_attempt_def)
  have none: "searchParams_getAll ''utm_source'' ps = []"
    using others other fresh by (simp add: searchParams_getAll_def)
  show ?thesis
    using fresh other run ps none unfolding frag by auto
qed

text \<open>
  The parameter \<^verbatim>\<open>code=true\<close> of line 55 is not among the seven: the URL of the sample
  flow carries it first.
\<close>

theorem authorization_url_counterexample:
  "fst (startAnthropicOAuth sample_runtime (sample_env 1000) empty_app)
     = StartSuccess
         (URL_toString (sample_url\<lparr>searchParams :=
            [(''code'', ''true''), (''client_id'', ''client-1''), (''response_type'', ''code''),
             (''redirect_uri'', ''https://app.example/callback''),
             (''scope'', ''org:create_api_key user:profile''),
             (''state'', ''__________________________________________8''),
             (''code_challenge'', ''AAAAAAAAAAAAAAAAAAAAAAAAAAAAAAAAAAAAAAAAAAA''),
             (''code_challenge_method'', ''S256'')]\<rparr>))
         ''AAAAAAAAAAAAAAAAAAAAAAAAAAAAAAAAAAAAAAAAAAA''
         ''__________________________________________8''
   \<and> fst (startAnthropicOAuth sample_runtime (sample_env 1000) empty_app)
     = StartSuccess
         ''https://auth.example/oauth/authorize?code=true&client_id=client-1&response_type=code&redirect_uri=https%3A%2F%2Fapp.example%2Fcallback&scope=org%3Acreate_api_key+user%3Aprofile&state=__________________________________________8&code_challenge=AAAAAAAAAAAAAAAAAAAAAAAAAAAAAAAAAAAAAAAAAAA&code_challenge_method=S256''
         ''AAAAAAAAAAAAAAAAAAAAAAAAAAAAAAAAAAAAAAAAAAA''
         ''__________________________________________8''
   \<and> ''code'' \<notin> set [''code_challenge'', ''code_challenge_method'', ''state'', ''redirect_uri'',
                        ''scope'', ''response_type'', ''client_id'']"
  by code_simp

subsection \<open>Logout\<close>

lemma logout_provisioned:
  assumes "flow_provisioned rt st"
  shows "logoutAnthropicOAuth rt st =
     (LogoutSuccess, connection_upsert ''Anthropic'' \<lparr>apikey = [], google_Oauth = []\<rparr> st)"
  using assms
  by (auto simp: flow_provisioned_def logoutAnthropicOAuth_def connection_getByProvider_def
      split: option.splits json.splits)

lemma logout_not_provisioned:
  assumes "\<not> flow_provisioned rt st"
  shows "logoutAnthropicOAuth rt st = (LogoutSuccess, st)"
proof (cases "connection st ''Anthropic''")
  case None
  then show ?thesis
    by (simp add: logoutAnthropicOAuth_def connection_getByProvider_def)
next
  case (Some row)
  show ?thesis
  proof (cases "google_Oauth row = []")
    case True
    with Some show ?thesis
      by (simp add: logoutAnthropicOAuth_def connection_getByProvider_def)
  next
    case False
    show ?thesis
    proof (cases "JSON_parse rt (google_Oauth row)")
      case None
      with Some False show ?thesis
        by (simp add: logoutAnthropicOAuth_def connection_getByProvider_def)
    next
      case (Some metadata)
      with \<open>connection st ''Anthropic'' = Some row\<close> False assms show ?thesis
        by (cases metadata)
          (auto simp: flow_provisioned_def logoutAnthropicOAuth_def connection_getByProvider_def)
    qed
  qed
qed

lemma cleared_not_provisioned:
  "\<not> flow_provisioned rt (connection_upsert ''Anthropic'' \<lparr>apikey = [], google_Oauth = []\<rparr> st)"
  by (simp add: flow_provisioned_def connection_upsert_def)

text \<open>
  C8. \<open>logoutAnthropicOAuth\<close> always reports success. When the stored credential is marked
  as provisioned by the flow, the row of provider Anthropic is kept with an empty key
  and empty metadata, nothing else changes, and a following \<open>checkAnthropicAuthStatus\<close>
  answers not authenticated. When it is not so marked (no row, no metadata, metadata that
  does not parse, or a different type), the state is returned unchanged, key and
  metadata included. A second logout leaves the state the first one returned.
\<close>

theorem logout_semantics:
  "logoutAnthropicOAuth rt st =
     (LogoutSuccess,
      if flow_provisioned rt st
      then st\<lparr>connection := (connection st)(''Anthropic'' \<mapsto> \<lparr>apikey = [], google_Oauth = []\<rparr>)\<rparr>
      else st)
   \<and> (flow_provisioned rt st \<longrightarrow>
        connection (snd (logoutAnthropicOAuth rt st)) ''Anthropic''
          = Some \<lparr>apikey = [], google_Oauth = []\<rparr>
        \<and> fst (checkAnthropicAuthStatus rt (snd (logoutAnthropicOAuth rt st))) = NotAuthenticated)
   \<and> logoutAnthropicOAuth rt (snd (logoutAnthropicOAuth rt st))
       = (LogoutSuccess, snd (logoutAnthropicOAuth rt st))"
proof (cases "flow_provisioned rt st")
  case True
  let ?st' = "connection_upsert ''Anthropic'' \<lparr>apikey = [], google_Oauth = []\<rparr> st"
  have run: "logoutAnthropicOAuth rt st = (LogoutSuccess, ?st')"
    using True by (rule logout_provisioned)
  have again: "logoutAnthropicOAuth rt ?st' = (LogoutSuccess, ?st')"
    using cleared_not_provisioned by (rule logout_not_provisioned)
  have status: "fst (checkAnthropicAuthStatus rt ?st') = NotAuthenticated"
    by (simp add: checkAnthropicAuthStatus_def connection_getByProvider_def connection_upsert_def)
  show ?thesis
    using True run again status by (simp add: connection_upsert_def)
next
  case False
  then have "logoutAnthropicOAuth rt st = (LogoutSuccess, st)"
    by (rule logout_not_provisioned)
  with False show ?thesis by simp
qed

theorem logout_semantics_witness:
  "flow_provisioned sample_runtime provisioned_app
   \<and> logoutAnthropicOAuth sample_runtime provisioned_app =
       (LogoutSuccess,
        provisioned_app\<lparr>connection := [''Anthropic'' \<mapsto> \<lparr>apikey = [], google_Oauth = []\<rparr>]\<rparr>)
   \<and> fst (checkAnthropicAuthStatus sample_runtime (snd (logoutAnthropicOAuth sample_runtime provisioned_app)))
       = NotAuthenticated
   \<and> \<not> flow_provisioned sample_runtime manual_app
   \<and> logoutAnthropicOAuth sample_runtime manual_app = (LogoutSuccess, manual_app)"
proof -
  have p: "flow_provisioned sample_runtime provisioned_app"
    by (simp add: flow_provisioned_def provisioned_app_def sample_runtime_def key_metadata_def
        sample_metadata_text_def)
  have m: "\<not> flow_provisioned sample_runtime manual_app"
    by (simp add: flow_provisioned_def manual_app_def)
  have c: "(connection provisioned_app)(''Anthropic'' \<mapsto> \<lparr>apikey = [], google_Oauth = []\<rparr>)
      = [''Anthropic'' \<mapsto> \<lparr>apikey = [], google_Oauth = []\<rparr>]"
    by (simp add: provisioned_app_def empty_app_def)
  note cleared = logout_semantics [of sample_runtime provisioned_app, unfolded if_P [OF p] c]
  note kept = logout_semantics [of sample_runtime manual_app, unfolded if_not_P [OF m]]
  show ?thesis
    using cleared kept p m by blast
qed

subsection \<open>Status\<close>

text \<open>
  C9 (amended). \<open>checkAnthropicAuthStatus\<close> returns the state it was given. It answers
  not authenticated exactly when provider Anthropic has no row or the row's key is
  empty. Otherwise its answer is read from the metadata alone: replacing the stored key
  by any other non-empty key leaves the answer as it was.
\<close>

theorem status_reads_metadata:
  "snd (checkAnthropicAuthStatus rt st) = st
   \<and> (fst (checkAnthropicAuthStatus rt st) = NotAuthenticated
        \<longleftrightarrow> (case connection st ''Anthropic'' of None \<Rightarrow> True | Some row \<Rightarrow> apikey row = []))
   \<and> (\<forall>row secret.
         connection st ''Anthropic'' = Some row \<and> apikey row \<noteq> [] \<and> secret \<noteq> [] \<longrightarrow>
         fst (checkAnthropicAuthStatus rt
                (st\<lparr>connection := (connection st)(''Anthropic'' \<mapsto> row\<lparr>apikey := secret\<rparr>)\<rparr>))
           = fst (checkAnthropicAuthStatus rt st))"
  by (auto simp: checkAnthropicAuthStatus_def connection_getByProvider_def Let_def
      split: option.splits)

theorem status_reads_metadata_witness:
  "connection provisioned_app ''Anthropic''
     = Some \<lparr>apikey = ''sk-abc'', google_Oauth = sample_metadata_text\<rparr>
   \<and> checkAnthropicAuthStatus sample_runtime provisioned_app
       = (Authenticated True (Some (JStr ''n'')) (Some (JStr ''sk-...c'')), provisioned_app)
   \<and> fst (checkAnthropicAuthStatus sample_runtime
            (provisioned_app\<lparr>connection := (connection provisioned_app)
               (''Anthropic'' \<mapsto> \<lparr>apikey = ''sk-other'', google_Oauth = sample_metadata_text\<rparr>)\<rparr>))
       = Authenticated True (Some (JStr ''n'')) (Some (JStr ''sk-...c''))"
proof -
  have row: "connection provisioned_app ''Anthropic''
      = Some \<lparr>apikey = ''sk-abc'', google_Oauth = sample_metadata_text\<rparr>"
    by (simp add: provisioned_app_def)
  have run: "checkAnthropicAuthStatus sample_runtime provisioned_app
       = (Authenticated True (Some (JStr ''n'')) (Some (JStr ''sk-...c'')), provisioned_app)"
    by (simp add: provisioned_app_def empty_app_def checkAnthropicAuthStatus_def
        connection_getByProvider_def sample_runtime_def sample_metadata_text_def
        key_metadata_def sample_key_def Let_def)
  have "fst (checkAnthropicAuthStatus sample_runtime
            (provisioned_app\<lparr>connection := (connection provisioned_app)
               (''Anthropic'' \<mapsto> \<lparr>apikey = ''sk-abc'', google_Oauth = sample_metadata_text\<rparr>
                                  \<lparr>apikey := ''sk-other''\<rparr>)\<rparr>))
       = fst (checkAnthropicAuthStatus sample_runtime provisioned_app)"
    using status_reads_metadata [of sample_runtime provisioned_app] row by simp
  then show ?thesis
    using row run by simp
qed

text \<open>
  The answer can still equal the stored key, when the metadata itself holds it: with a
  key \<^verbatim>\<open>sk-abc\<close> whose metadata gives \<^verbatim>\<open>key_name\<close> the same text, the name returned is
  the key.
\<close>

theorem status_counterexample:
  "connection named_app ''Anthropic''
     = Some \<lparr>apikey = ''sk-abc'', google_Oauth = named_after_key_text\<rparr>
   \<and> JSON_parse sample_runtime named_after_key_text = Some (JObj [(''key_name'', JStr ''sk-abc'')])
   \<and> checkAnthropicAuthStatus sample_runtime named_app
     = (Authenticated False (Some (JStr ''sk-abc'')) None, named_app)"
  by (simp add: named_app_def empty_app_def checkAnthropicAuthStatus_def
      connection_getByProvider_def sample_runtime_def named_after_key_text_def
      sample_metadata_text_def Let_def)

subsection \<open>The browser login flow\<close>

text \<open>
  C10. When the service reports an existing login, \<open>startGeminiOAuthLogin\<close> returns
  success with the message \<^verbatim>\<open>Already authenticated\<close> and no URL, and the only thing it
  has done is the call of \<^verbatim>\<open>isAuthenticated\<close>. Unless the service answers that there is
  no login, the map of pending promises and the timers are as before, \<^verbatim>\<open>authWithWeb\<close>
  has not been called and no URL is returned; so a login flow is allocated only after
  the answer \<^verbatim>\<open>false\<close>.
\<close>

theorem already_authenticated:
  "(isAuthenticated svc = Inr True \<longrightarrow>
      startGeminiOAuthLogin svc g =
        (\<lparr>success = True, authUrl = None, message = Some ''Already authenticated'', error = None\<rparr>,
         g\<lparr>service_calls := service_calls g @ [Call_isAuthenticated]\<rparr>))
   \<and> (isAuthenticated svc \<noteq> Inr False \<longrightarrow>
        authPromises (snd (startGeminiOAuthLogin svc g)) = authPromises g
      \<and> timers (snd (startGeminiOAuthLogin svc g)) = timers g
      \<and> service_calls (snd (startGeminiOAuthLogin svc g)) = service_calls g @ [Call_isAuthenticated]
      \<and> authUrl (fst (startGeminiOAuthLogin svc g)) = None)"
  by (auto simp: startGeminiOAuthLogin_def Let_def split: sum.splits)

theorem already_authenticated_witness:
  "isAuthenticated logged_in_service = Inr True
   \<and> startGeminiOAuthLogin logged_in_service empty_gemini =
        (\<lparr>success = True, authUrl = None, message = Some ''Already authenticated'', error = None\<rparr>,
         \<lparr>authPromises = Map.empty, timers = [], service_calls = [Call_isAuthenticated]\<rparr>)"
proof -
  have h: "isAuthenticated logged_in_service = Inr True"
    by (simp add: logged_in_service_def)
  show ?thesis
    using already_authenticated [of logged_in_service empty_gemini] h
    by (simp add: empty_gemini_def)
qed

end
